theory Spec2Isabelle
  imports Main
begin

section \<open>Python strings\<close>

text \<open>
  A Python \<open>str\<close> is modelled as a HOL \<open>string\<close>; a \<open>char\<close> stands for the code point
  of the same number, so the model covers the strings whose code points are below 256.
  The functions below are the \<open>str\<close> methods that \<open>main.py\<close> calls.
\<close>

definition is_space :: "char \<Rightarrow> bool" where
  \<comment> \<open>\<open>str.isspace\<close> on one character, also the class \<open>\s\<close> of \<open>re\<close>\<close>
  "is_space c =
     (let n = (of_char c :: nat)
      in (9 \<le> n \<and> n \<le> 13) \<or> (28 \<le> n \<and> n \<le> 32) \<or> n = 133 \<or> n = 160)"

definition lower_char :: "char \<Rightarrow> char" where
  "lower_char c =
     (let n = (of_char c :: nat)
      in if (65 \<le> n \<and> n \<le> 90) \<or> (192 \<le> n \<and> n \<le> 222 \<and> n \<noteq> 215)
         then char_of (n + 32) else c)"

definition lower :: "string \<Rightarrow> string" where
  "lower s = map lower_char s"

definition lstrip :: "string \<Rightarrow> string" where
  "lstrip s = dropWhile is_space s"

definition rstrip :: "string \<Rightarrow> string" where
  "rstrip s = rev (dropWhile is_space (rev s))"

definition strip :: "string \<Rightarrow> string" where
  "strip s = lstrip (rstrip s)"

definition rstrip_char :: "char \<Rightarrow> string \<Rightarrow> string" where
  \<comment> \<open>\<open>s.rstrip(c)\<close> for a one-character argument\<close>
  "rstrip_char c s = rev (dropWhile (\<lambda>x. x = c) (rev s))"

definition startswith :: "string \<Rightarrow> string \<Rightarrow> bool" where
  \<comment> \<open>\<open>s.startswith(p)\<close>\<close>
  "startswith s p = (take (length p) s = p)"

definition endswith :: "string \<Rightarrow> string \<Rightarrow> bool" where
  "endswith s p = startswith (rev s) (rev p)"

fun contains :: "string \<Rightarrow> string \<Rightarrow> bool" where
  \<comment> \<open>\<open>sub in s\<close>, written \<open>contains s sub\<close>\<close>
  "contains [] sub = (sub = [])"
| "contains (c # cs) sub = (startswith (c # cs) sub \<or> contains cs sub)"

fun replace_from :: "nat \<Rightarrow> string \<Rightarrow> string \<Rightarrow> string \<Rightarrow> string" where
  \<comment> \<open>the scan of \<open>str.replace\<close>; the number counts the characters of the occurrence
      just replaced that are still to be skipped\<close>
  "replace_from n old new [] = []"
| "replace_from (Suc n) old new (c # cs) = replace_from n old new cs"
| "replace_from 0 old new (c # cs) =
     (if startswith (c # cs) old then new @ replace_from (length old - 1) old new cs
      else c # replace_from 0 old new cs)"

definition replace :: "string \<Rightarrow> string \<Rightarrow> string \<Rightarrow> string" where
  \<comment> \<open>\<open>s.replace(old, new)\<close> for a non-empty \<open>old\<close>\<close>
  "replace s old new = replace_from 0 old new s"

fun split_on :: "char \<Rightarrow> string \<Rightarrow> string list" where
  \<comment> \<open>\<open>s.split(c)\<close> for a one-character separator\<close>
  "split_on sep [] = [[]]"
| "split_on sep (c # cs) =
     (if c = sep then [] # split_on sep cs
      else (case split_on sep cs of [] \<Rightarrow> [[c]] | l # ls \<Rightarrow> (c # l) # ls))"

fun join :: "string \<Rightarrow> string list \<Rightarrow> string" where
  \<comment> \<open>\<open>sep.join(xs)\<close>, written \<open>join sep xs\<close>\<close>
  "join sep [] = []"
| "join sep [x] = x"
| "join sep (x # y # ys) = x @ sep @ join sep (y # ys)"

fun digits :: "nat \<Rightarrow> string" where
  "digits n =
     (if n < 10 then [''0123456789'' ! n] else digits (n div 10) @ [''0123456789'' ! (n mod 10)])"

definition str_int :: "int \<Rightarrow> string" where
  \<comment> \<open>\<open>str(n)\<close> of an integer, as an f-string renders it\<close>
  "str_int i = (if i < 0 then CHR ''-'' # digits (nat (- i)) else digits (nat i))"

text \<open>
  \<open>base64.b64encode(s.encode()).decode()\<close>: the UTF-8 bytes of the string, three
  bytes to four characters, padded with \<open>=\<close>.
\<close>

definition utf8 :: "string \<Rightarrow> nat list" where
  "utf8 s =
     concat (map (\<lambda>c. let n = (of_char c :: nat)
                       in if n < 128 then [n] else [192 + n div 64, 128 + n mod 64]) s)"

definition b64_char :: "nat \<Rightarrow> char" where
  "b64_char i = ''ABCDEFGHIJKLMNOPQRSTUVWXYZabcdefghijklmnopqrstuvwxyz0123456789+/'' ! i"

fun b64_groups :: "nat list \<Rightarrow> string" where
  "b64_groups (a # b # c # bs) =
     [b64_char (a div 4), b64_char ((a mod 4) * 16 + b div 16),
      b64_char ((b mod 16) * 4 + c div 64), b64_char (c mod 64)] @ b64_groups bs"
| "b64_groups [a, b] =
     [b64_char (a div 4), b64_char ((a mod 4) * 16 + b div 16), b64_char ((b mod 16) * 4), CHR ''='']"
| "b64_groups [a] = [b64_char (a div 4), b64_char ((a mod 4) * 16), CHR ''='', CHR ''='']"
| "b64_groups [] = []"

definition b64encode :: "string \<Rightarrow> string" where
  "b64encode s = b64_groups (utf8 s)"

section \<open>Dictionaries\<close>

text \<open>
  A Python \<open>dict\<close> keeps its keys in insertion order: an association list in which
  assigning to a key that is present replaces the value in place and assigning to a new
  key appends the entry.
\<close>

type_synonym ('k, 'v) dict = "('k \<times> 'v) list"

fun setitem :: "'k \<Rightarrow> 'v \<Rightarrow> ('k, 'v) dict \<Rightarrow> ('k, 'v) dict" where
  "setitem k v [] = [(k, v)]"
| "setitem k v ((k', v') # d) = (if k' = k then (k, v) # d else (k', v') # setitem k v d)"

definition getitem :: "('k, 'v) dict \<Rightarrow> 'k \<Rightarrow> 'v option" where
  "getitem d k = map_of d k"

section \<open>JSON values, exceptions, HTTP\<close>

text \<open>
  The values that \<open>response.json()\<close> returns and that \<open>requests\<close> serialises from
  \<open>json=post_data\<close>. Numbers are integers, and an object lists each of its keys once.
\<close>

datatype json =
    JNull
  | JBool bool
  | JInt int
  | JStr string
  | JArr "json list"
  | JObj "(string \<times> json) list"

fun truthy :: "json \<Rightarrow> bool" where
  \<comment> \<open>Python's truth value of an object, as \<open>if x:\<close> tests it\<close>
  "truthy JNull = False"
| "truthy (JBool b) = b"
| "truthy (JInt i) = (i \<noteq> 0)"
| "truthy (JStr s) = (s \<noteq> [])"
| "truthy (JArr xs) = (xs \<noteq> [])"
| "truthy (JObj kvs) = (kvs \<noteq> [])"

fun type_name :: "json \<Rightarrow> string" where
  "type_name JNull = ''NoneType''"
| "type_name (JBool b) = ''bool''"
| "type_name (JInt i) = ''int''"
| "type_name (JStr s) = ''str''"
| "type_name (JArr xs) = ''list''"
| "type_name (JObj kvs) = ''dict''"

text \<open>
  The exceptions that reach the handlers of \<open>main.py\<close>, each with the text that
  \<open>str(e)\<close> gives. \<open>JSONDecodeError\<close> is the one \<open>response.json()\<close> raises; in
  \<open>requests\<close> it is a subclass of \<open>RequestException\<close> as well as of
  \<open>json.JSONDecodeError\<close>.
\<close>

datatype exn =
    Timeout string
  | RequestException string
  | JSONDecodeError string
  | KeyError string
  | AttributeError string
  | TypeError string
  | ValueError string

definition sq :: string where
  \<comment> \<open>the single quote\<close>
  "sq = [CHR 0x27]"

definition dq :: string where
  \<comment> \<open>the double quote\<close>
  "dq = [CHR 0x22]"

fun str_exn :: "exn \<Rightarrow> string" where
  "str_exn (Timeout m) = m"
| "str_exn (RequestException m) = m"
| "str_exn (JSONDecodeError m) = m"
| "str_exn (KeyError k) = sq @ k @ sq"
| "str_exn (AttributeError m) = m"
| "str_exn (TypeError m) = m"
| "str_exn (ValueError m) = m"

fun py_get :: "json \<Rightarrow> string \<Rightarrow> json \<Rightarrow> exn + json" where
  \<comment> \<open>\<open>x.get(key, default)\<close>\<close>
  "py_get (JObj kvs) k dflt = Inr (case map_of kvs k of None \<Rightarrow> dflt | Some v \<Rightarrow> v)"
| "py_get x k dflt =
     Inl (AttributeError (sq @ type_name x @ sq @ '' object has no attribute '' @ sq @ ''get'' @ sq))"

fun subscript :: "json \<Rightarrow> string \<Rightarrow> exn + json" where
  \<comment> \<open>\<open>x[key]\<close> for a string key\<close>
  "subscript (JObj kvs) k = (case map_of kvs k of None \<Rightarrow> Inl (KeyError k) | Some v \<Rightarrow> Inr v)"
| "subscript (JArr xs) k = Inl (TypeError ''list indices must be integers or slices, not str'')"
| "subscript (JStr s) k = Inl (TypeError (''string indices must be integers, not '' @ sq @ ''str'' @ sq))"
| "subscript x k = Inl (TypeError (sq @ type_name x @ sq @ '' object is not subscriptable''))"

datatype http_method = GET | POST

datatype body = NoBody | JsonBody "(string, json) dict" | RawBody string

record request =
  meth :: http_method
  url :: string
  req_headers :: "(string, string) dict"
  req_body :: body
  timeout :: nat

text \<open>
  A response carries its status, its text, and what \<open>response.json()\<close> gives on it:
  the decoded value, or the message of the decoding error.
\<close>

record response =
  status_code :: int
  "text" :: string
  decoded :: "string + json"

datatype outcome = Returned response | Raised exn

text \<open>
  The remote site answers a request knowing the requests sent before it.
\<close>

type_synonym server = "request list \<Rightarrow> request \<Rightarrow> outcome"

definition response_json :: "response \<Rightarrow> exn + json" where
  \<comment> \<open>\<open>response.json()\<close>\<close>
  "response_json r = (case decoded r of Inl m \<Rightarrow> Inl (JSONDecodeError m) | Inr v \<Rightarrow> Inr v)"

section \<open>The publisher's state\<close>

datatype ui_event = Warning string | Error string | Success string

text \<open>
  \<open>wordpress_config\<close> is a dictionary with a fixed set of keys; \<open>headers\<close> holds a
  reference to a dictionary in the store, since the operations copy it and assign to the
  copy. A key that the WordPress.com configuration does not have is \<open>None\<close>.
\<close>

record config =
  site_url :: string
  site_domain :: "string option"
  username :: string
  password :: string
  is_wpcom :: bool
  api_base :: "string option"
  use_query_params :: "bool option"
  headers :: nat

record world =
  wordpress_config :: "config option"  \<comment> \<open>\<open>None\<close> is the empty dictionary\<close>
  store :: "(string, string) dict list"  \<comment> \<open>the header dictionaries, by address\<close>
  sent :: "request list"  \<comment> \<open>the requests issued so far, oldest first\<close>
  ui :: "ui_event list"  \<comment> \<open>what \<open>st.warning\<close>, \<open>st.error\<close>, \<open>st.success\<close> displayed\<close>

definition init_world :: world where
  \<comment> \<open>after \<open>AdvancedPublisher.__init__\<close>\<close>
  "init_world = \<lparr>wordpress_config = None, store = [], sent = [], ui = []\<rparr>"

definition alloc :: "(string, string) dict \<Rightarrow> world \<Rightarrow> nat \<times> world" where
  "alloc d w = (length (store w), w\<lparr>store := store w @ [d]\<rparr>)"

definition deref :: "world \<Rightarrow> nat \<Rightarrow> (string, string) dict" where
  "deref w a = store w ! a"

definition dict_copy :: "nat \<Rightarrow> world \<Rightarrow> nat \<times> world" where
  \<comment> \<open>\<open>d.copy()\<close>: a new dictionary with the same entries\<close>
  "dict_copy a w = alloc (deref w a) w"

definition dict_assign :: "nat \<Rightarrow> string \<Rightarrow> string \<Rightarrow> world \<Rightarrow> world" where
  \<comment> \<open>\<open>d[k] = v\<close> on the dictionary at an address\<close>
  "dict_assign a k v w = w\<lparr>store := (store w)[a := setitem k v (deref w a)]\<rparr>"

definition say :: "ui_event \<Rightarrow> world \<Rightarrow> world" where
  "say e w = w\<lparr>ui := ui w @ [e]\<rparr>"

definition http :: "server \<Rightarrow> request \<Rightarrow> world \<Rightarrow> outcome \<times> world" where
  \<comment> \<open>\<open>requests.get\<close> and \<open>requests.post\<close>\<close>
  "http srv r w = (srv (sent w) r, w\<lparr>sent := sent w @ [r]\<rparr>)"

section \<open>Connection setup\<close>

definition setup_wordpress :: "string \<Rightarrow> string \<Rightarrow> string \<Rightarrow> world \<Rightarrow> world" where
  "setup_wordpress site user pass w =
     (if contains (lower site) ''wordpress.com'' then
        (let domain = rstrip_char CHR ''/'' (replace (replace site ''https://'' '''') ''http://'' '''');
             (h, w1) = alloc [(''Content-Type'', ''application/json''),
                              (''Authorization'', ''Bearer '' @ pass)] w
         in w1\<lparr>wordpress_config := Some
              \<lparr>site_url = rstrip_char CHR ''/'' site,
               site_domain = Some domain,
               username = user,
               password = pass,
               is_wpcom = True,
               api_base = Some (''https://public-api.wordpress.com/rest/v1.1/sites/'' @ domain),
               use_query_params = None,
               headers = h\<rparr>\<rparr>)
      else
        (let (h, w1) = alloc [(''Content-Type'', ''application/json''),
                              (''Authorization'', ''Basic '' @ b64encode (user @ '':'' @ pass))] w
         in w1\<lparr>wordpress_config := Some
              \<lparr>site_url = rstrip_char CHR ''/'' site,
               site_domain = None,
               username = user,
               password = pass,
               is_wpcom = False,
               api_base = None,
               use_query_params = None,
               headers = h\<rparr>\<rparr>))"

definition get_api_url :: "world \<Rightarrow> string \<Rightarrow> exn + string" where
  \<comment> \<open>\<open>_get_api_url\<close>\<close>
  "get_api_url w endpoint =
     (case wordpress_config w of
        None \<Rightarrow> Inl (ValueError ''WordPress configuration not set.'')
      | Some cfg \<Rightarrow>
          if is_wpcom cfg then
            (case api_base cfg of
               None \<Rightarrow> Inl (KeyError ''api_base'')
             | Some base \<Rightarrow> Inr (base @ endpoint))
          else if use_query_params cfg = Some True then
            Inr (site_url cfg @ ''/?rest_route='' @ endpoint)
          else Inr (site_url cfg @ ''/wp-json'' @ endpoint))"

section \<open>Connection test\<close>

text \<open>
  The result dictionaries \<open>{'success': True, 'message': ...}\<close> and
  \<open>{'success': False, 'error': ...}\<close>. A success message interpolates a value of the
  response; the model keeps that value instead of its rendering:
  \<open>ConnectedWpcom n\<close> is "Connected to WordPress.com site: n", \<open>ConnectedAs n\<close> is
  "Connected as n" and \<open>ConnectedAsQuery n\<close> is
  "Connected as n (using query parameter format)".
\<close>

datatype conn_message = ConnectedWpcom json | ConnectedAs json | ConnectedAsQuery json

datatype conn_result = ConnSuccess conn_message | ConnFailure string

definition auth_failed :: string where
  "auth_failed = ''Authentication failed. Please check your username and application password.''"

definition api_error :: "response \<Rightarrow> string" where
  "api_error r =
     ''WordPress API error: '' @ str_int (status_code r) @ '' - '' @ text r
       @ ''. Check if REST API is enabled and credentials are correct.''"

definition probe :: "string \<Rightarrow> (string, string) dict \<Rightarrow> request" where
  \<comment> \<open>\<open>requests.get(url, headers=headers_to_use, timeout=10)\<close>\<close>
  "probe u hs = \<lparr>meth = GET, url = u, req_headers = hs, req_body = NoBody, timeout = 10\<rparr>"

definition set_use_query_params :: "bool \<Rightarrow> world \<Rightarrow> world" where
  \<comment> \<open>\<open>self.wordpress_config['use_query_params'] = b\<close>\<close>
  "set_use_query_params b w =
     w\<lparr>wordpress_config :=
         map_option (\<lambda>cfg. cfg\<lparr>use_query_params := Some b\<rparr>) (wordpress_config w)\<rparr>"

definition test_wpcom :: "server \<Rightarrow> config \<Rightarrow> world \<Rightarrow> (exn + conn_result) \<times> world" where
  \<comment> \<open>the WordPress.com branch of the \<open>try\<close> block\<close>
  "test_wpcom srv cfg w =
     (case get_api_url w ''/'' of
        Inl e \<Rightarrow> (Inl e, w)
      | Inr u \<Rightarrow>
          (case http srv (probe u (deref w (headers cfg))) w of
             (Raised e, w1) \<Rightarrow> (Inl e, w1)
           | (Returned response, w1) \<Rightarrow>
               if status_code response = 200 then
                 (case response_json response of
                    Inl e \<Rightarrow> (Inl e, w1)
                  | Inr site_data \<Rightarrow>
                      (case py_get site_data ''name'' (JStr ''Unknown'') of
                         Inl e \<Rightarrow> (Inl e, w1)
                       | Inr n \<Rightarrow> (Inr (ConnSuccess (ConnectedWpcom n)), w1)))
               else if status_code response = 403 then
                 (Inr (ConnFailure ''WordPress.com site is private or in Coming Soon mode. Please make your site public first.''), w1)
               else
                 (Inr (ConnFailure (''WordPress.com API error: '' @ str_int (status_code response)
                                      @ '' - '' @ text response)), w1)))"

definition after_fallback :: "outcome \<times> world \<Rightarrow> (exn + conn_result) \<times> world" where
  \<comment> \<open>what follows the second \<open>requests.get\<close>, inside \<open>if response.status_code == 404\<close>\<close>
  "after_fallback ow =
     (case ow of
        (Raised e, w4) \<Rightarrow> (Inl e, w4)
      | (Returned response, w4) \<Rightarrow>
          if status_code response = 200 then
            (case response_json response of
               Inl e \<Rightarrow> (Inl e, w4)
             | Inr user_data \<Rightarrow>
                 (let w5 = set_use_query_params True w4
                  in case py_get user_data ''name'' (JStr ''Unknown'') of
                       Inl e \<Rightarrow> (Inl e, w5)
                     | Inr n \<Rightarrow> (Inr (ConnSuccess (ConnectedAsQuery n)), w5)))
          else if status_code response = 401 then (Inr (ConnFailure auth_failed), w4)
          else (Inr (ConnFailure (api_error response)), w4))"

definition after_first ::
  "server \<Rightarrow> config \<Rightarrow> nat \<Rightarrow> outcome \<times> world \<Rightarrow> (exn + conn_result) \<times> world" where
  \<comment> \<open>what follows the first \<open>requests.get\<close>\<close>
  "after_first srv cfg headers_to_use ow =
     (case ow of
        (Raised e, w3) \<Rightarrow> (Inl e, w3)
      | (Returned response, w3) \<Rightarrow>
          if status_code response = 404 then
            (let fallback_url = site_url cfg @ ''/?rest_route=/wp/v2/users/me''
             in after_fallback (http srv (probe fallback_url (deref w3 headers_to_use)) w3))
          else if status_code response = 200 then
            (case response_json response of
               Inl e \<Rightarrow> (Inl e, w3)
             | Inr user_data \<Rightarrow>
                 (let w4 = set_use_query_params False w3
                  in case py_get user_data ''name'' (JStr ''Unknown'') of
                       Inl e \<Rightarrow> (Inl e, w4)
                     | Inr n \<Rightarrow> (Inr (ConnSuccess (ConnectedAs n)), w4)))
          else if status_code response = 401 then (Inr (ConnFailure auth_failed), w3)
          else (Inr (ConnFailure (api_error response)), w3))"

definition test_self_hosted :: "server \<Rightarrow> config \<Rightarrow> world \<Rightarrow> (exn + conn_result) \<times> world" where
  \<comment> \<open>the self-hosted branch of the \<open>try\<close> block\<close>
  "test_self_hosted srv cfg w =
     (let (headers_to_use, w1) = dict_copy (headers cfg) w;
          w2 = dict_assign headers_to_use ''Accept'' ''application/json'' w1
      in case get_api_url w2 ''/wp/v2/users/me'' of
           Inl e \<Rightarrow> (Inl e, w2)
         | Inr pretty_url \<Rightarrow>
             after_first srv cfg headers_to_use
               (http srv (probe pretty_url (deref w2 headers_to_use)) w2))"

fun connection_handlers :: "exn \<Rightarrow> conn_result" where
  \<comment> \<open>the \<open>except\<close> clauses of \<open>test_wordpress_connection\<close>, in their order\<close>
  "connection_handlers (Timeout m) =
     ConnFailure ''Connection timed out. Please check the URL and your network connection.''"
| "connection_handlers (RequestException m) = ConnFailure (''Network error or invalid URL: '' @ m)"
| "connection_handlers (JSONDecodeError m) = ConnFailure (''Network error or invalid URL: '' @ m)"
| "connection_handlers e = ConnFailure (str_exn e)"

definition test_wordpress_connection :: "server \<Rightarrow> world \<Rightarrow> conn_result \<times> world" where
  "test_wordpress_connection srv w =
     (case wordpress_config w of
        None \<Rightarrow> (ConnFailure ''WordPress not configured'', w)
      | Some cfg \<Rightarrow>
          (case (if is_wpcom cfg then test_wpcom srv cfg w else test_self_hosted srv cfg w) of
             (Inl e, w') \<Rightarrow> (connection_handlers e, w')
           | (Inr r, w') \<Rightarrow> (r, w')))"

text \<open>
  The two requests of the self-hosted test, for the statements below: both carry a copy
  of the shared headers with \<open>Accept\<close> added; the first goes to what \<open>_get_api_url\<close>
  gives, the second to the query-parameter form.
\<close>

definition probe_headers :: "world \<Rightarrow> config \<Rightarrow> (string, string) dict" where
  "probe_headers w cfg = setitem ''Accept'' ''application/json'' (deref w (headers cfg))"

definition first_probe :: "world \<Rightarrow> config \<Rightarrow> request" where
  "first_probe w cfg =
     probe (if use_query_params cfg = Some True
            then site_url cfg @ ''/?rest_route=/wp/v2/users/me''
            else site_url cfg @ ''/wp-json/wp/v2/users/me'')
       (probe_headers w cfg)"

definition pretty_probe :: "world \<Rightarrow> config \<Rightarrow> request" where
  \<comment> \<open>the first request while the query-parameter form has not been detected\<close>
  "pretty_probe w cfg =
     probe (site_url cfg @ ''/wp-json/wp/v2/users/me'') (probe_headers w cfg)"

definition fallback_probe :: "world \<Rightarrow> config \<Rightarrow> request" where
  "fallback_probe w cfg =
     probe (site_url cfg @ ''/?rest_route=/wp/v2/users/me'') (probe_headers w cfg)"

section \<open>Fetching terms\<close>

text \<open>
  An entry of the term lists: \<open>{'id': term['id'], 'name': term['name']}\<close>, with
  whatever values the response held under the two keys.
\<close>

record wp_term =
  term_id :: json
  term_name :: json

definition mk_term :: "int \<Rightarrow> string \<Rightarrow> wp_term" where
  \<comment> \<open>the entry \<open>{id: integer, name: string}\<close> of a well-formed response\<close>
  "mk_term i n = \<lparr>term_id = JInt i, term_name = JStr n\<rparr>"

fun iterate :: "json \<Rightarrow> exn + json list" where
  \<comment> \<open>the items that \<open>for x in v\<close> visits\<close>
  "iterate (JArr xs) = Inr xs"
| "iterate (JObj kvs) = Inr (map (\<lambda>kv. JStr (fst kv)) kvs)"
| "iterate (JStr s) = Inr (map (\<lambda>c. JStr [c]) s)"
| "iterate x = Inl (TypeError (sq @ type_name x @ sq @ '' object is not iterable''))"

fun collect_terms :: "json list \<Rightarrow> wp_term list \<Rightarrow> exn option \<times> wp_term list" where
  \<comment> \<open>the loop over \<open>terms_data\<close>: the list built so far, and the exception that
      stopped the loop, if any\<close>
  "collect_terms [] terms_list = (None, terms_list)"
| "collect_terms (t # ts) terms_list =
     (case subscript t ''id'' of
        Inl e \<Rightarrow> (Some e, terms_list)
      | Inr i \<Rightarrow>
          (case subscript t ''name'' of
             Inl e \<Rightarrow> (Some e, terms_list)
           | Inr n \<Rightarrow> collect_terms ts (terms_list @ [\<lparr>term_id = i, term_name = n\<rparr>])))"

definition terms_failure :: "string \<Rightarrow> exn \<Rightarrow> wp_term list \<Rightarrow> world \<Rightarrow> wp_term list \<times> world" where
  \<comment> \<open>the \<open>except\<close> clauses of \<open>_get_terms_robust\<close>; the last one does not return, so
      the function goes on to \<open>return terms_list\<close>\<close>
  "terms_failure term_type e terms_list w =
     (case e of
        Timeout m \<Rightarrow>
          ([], say (Error (''Timed out fetching '' @ term_type
                            @ ''. Check network or site responsiveness.'')) w)
      | RequestException m \<Rightarrow>
          ([], say (Error (''Network error fetching '' @ term_type @ '': '' @ m)) w)
      | JSONDecodeError m \<Rightarrow>
          ([], say (Error (''Network error fetching '' @ term_type @ '': '' @ m)) w)
      | _ \<Rightarrow>
          (terms_list, say (Error (''Error processing '' @ term_type @ '' data: '' @ str_exn e)) w))"

definition after_terms_get ::
  "string \<Rightarrow> string \<Rightarrow> outcome \<times> world \<Rightarrow> wp_term list \<times> world" where
  \<comment> \<open>what follows \<open>requests.get\<close> in the \<open>try\<close> block of \<open>_get_terms_robust\<close>, with
      its handlers\<close>
  "after_terms_get term_type api_url ow =
     (case ow of
        (Raised e, w3) \<Rightarrow> terms_failure term_type e [] w3
      | (Returned response, w3) \<Rightarrow>
          if status_code response = 200 then
            (case response_json response of
               Inl e \<Rightarrow> terms_failure term_type e [] w3
             | Inr terms_data \<Rightarrow>
                 (case iterate terms_data of
                    Inl e \<Rightarrow> terms_failure term_type e [] w3
                  | Inr items \<Rightarrow>
                      (case collect_terms items [] of
                         (None, terms_list) \<Rightarrow> (terms_list, w3)
                       | (Some e, terms_list) \<Rightarrow> terms_failure term_type e terms_list w3)))
          else
            ([], say (Error (''Failed to fetch '' @ term_type @ '' from '' @ api_url
               @ '': '' @ str_int (status_code response) @ '' - '' @ text response)) w3))"

definition get_terms_robust :: "server \<Rightarrow> string \<Rightarrow> world \<Rightarrow> (exn + wp_term list) \<times> world" where
  \<comment> \<open>\<open>_get_terms_robust\<close>; \<open>Inl\<close> is an exception that leaves the function\<close>
  "get_terms_robust srv term_type w =
     (case wordpress_config w of
        None \<Rightarrow> (Inl (KeyError ''headers''), w)
      | Some cfg \<Rightarrow>
          if is_wpcom cfg then
            (Inr [], say (Warning (''Fetching '' @ term_type
               @ '' list is not fully supported for WordPress.com via this API configuration.'')) w)
          else
            (let (headers_to_use, w1) = dict_copy (headers cfg) w;
                 w2 = dict_assign headers_to_use ''Accept'' ''application/json'' w1;
                 endpoint = ''/wp/v2/'' @ term_type
             in case get_api_url w2 endpoint of
                  Inl e \<Rightarrow> (Inl e, w2)
                | Inr api_url \<Rightarrow>
                    (case after_terms_get term_type api_url
                            (http srv (probe api_url (deref w2 headers_to_use)) w2) of
                       (terms_list, w') \<Rightarrow> (Inr terms_list, w'))))"

definition fetch_categories :: "server \<Rightarrow> world \<Rightarrow> (exn + wp_term list) \<times> world" where
  "fetch_categories srv w = get_terms_robust srv ''categories'' w"

definition fetch_tags :: "server \<Rightarrow> world \<Rightarrow> (exn + wp_term list) \<times> world" where
  "fetch_tags srv w = get_terms_robust srv ''tags'' w"

section \<open>Media upload\<close>

text \<open>
  \<open>UploadSuccess i u m\<close> is \<open>{'success': True, 'media_id': i, 'media_url': u,
  'message': m}\<close>; \<open>UploadFailure e\<close> is \<open>{'success': False, 'error': e}\<close>.
\<close>

datatype upload_result = UploadSuccess json json string | UploadFailure string

definition media_request :: "string \<Rightarrow> (string, string) dict \<Rightarrow> string \<Rightarrow> request" where
  \<comment> \<open>\<open>requests.post(media_api_url, headers=headers_to_use, data=image_data, timeout=30)\<close>\<close>
  "media_request u hs image_data =
     \<lparr>meth = POST, url = u, req_headers = hs, req_body = RawBody image_data, timeout = 30\<rparr>"

definition after_upload :: "string \<Rightarrow> outcome \<times> world \<Rightarrow> (exn + upload_result) \<times> world" where
  \<comment> \<open>what follows \<open>requests.post\<close> in the \<open>try\<close> block of \<open>upload_image_to_wordpress\<close>\<close>
  "after_upload filename ow =
     (case ow of
        (Raised e, w4) \<Rightarrow> (Inl e, w4)
      | (Returned response, w4) \<Rightarrow>
          if status_code response = 201 then
            (case response_json response of
               Inl e \<Rightarrow> (Inl e, w4)
             | Inr media_info \<Rightarrow>
                 (case subscript media_info ''id'' of
                    Inl e \<Rightarrow> (Inl e, w4)
                  | Inr i \<Rightarrow>
                      (case subscript media_info ''source_url'' of
                         Inl e \<Rightarrow> (Inl e, w4)
                       | Inr u \<Rightarrow>
                           (Inr (UploadSuccess i u
                              (''Image '' @ sq @ filename @ sq
                                 @ '' uploaded successfully to media library.'')), w4))))
          else
            (Inr (UploadFailure (''Image upload failed: '' @ str_int (status_code response)
                                   @ '' - '' @ text response)), w4))"

definition upload_try ::
  "server \<Rightarrow> config \<Rightarrow> string \<Rightarrow> string \<Rightarrow> string \<Rightarrow> world \<Rightarrow> (exn + upload_result) \<times> world" where
  \<comment> \<open>the \<open>try\<close> block of \<open>upload_image_to_wordpress\<close>\<close>
  "upload_try srv cfg image_data filename mime_type w =
     (case get_api_url w ''/wp/v2/media'' of
        Inl e \<Rightarrow> (Inl e, w)
      | Inr media_api_url \<Rightarrow>
          (let (headers_to_use, w1) = dict_copy (headers cfg) w;
               w2 = dict_assign headers_to_use ''Content-Type'' mime_type w1;
               w3 = dict_assign headers_to_use ''Content-Disposition''
                      (''attachment; filename='' @ dq @ filename @ dq) w2
           in after_upload filename
                (http srv (media_request media_api_url (deref w3 headers_to_use) image_data) w3)))"

fun upload_handlers :: "exn \<Rightarrow> upload_result" where
  "upload_handlers (Timeout m) =
     UploadFailure ''Image upload timed out. The WordPress site might be slow or unreachable.''"
| "upload_handlers (RequestException m) = UploadFailure (''Network error during image upload: '' @ m)"
| "upload_handlers (JSONDecodeError m) = UploadFailure (''Network error during image upload: '' @ m)"
| "upload_handlers e = UploadFailure (''Unexpected error during image upload: '' @ str_exn e)"

definition upload_image_to_wordpress ::
  "server \<Rightarrow> string \<Rightarrow> string \<Rightarrow> string \<Rightarrow> world \<Rightarrow> upload_result \<times> world" where
  "upload_image_to_wordpress srv image_data filename mime_type w =
     (case wordpress_config w of
        None \<Rightarrow> (UploadFailure ''WordPress not configured'', w)
      | Some cfg \<Rightarrow>
          if is_wpcom cfg then
            (UploadFailure ''WordPress.com image upload not fully supported in this version. Try self-hosted WP.'',
             say (Warning ''WordPress.com image upload is more complex and not fully implemented for direct file upload in this version.'') w)
          else
            (case upload_try srv cfg image_data filename mime_type w of
               (Inl e, w') \<Rightarrow> (upload_handlers e, w')
             | (Inr r, w') \<Rightarrow> (r, w')))"

section \<open>Publishing a post\<close>

text \<open>
  The success dictionary of \<open>publish_to_wordpress\<close>. Its \<open>edit_url\<close> is
  \<open>edit_site\<close> followed by \<open>/wp-admin/post.php?post=\<close>, the rendering of \<open>post_id\<close>
  and \<open>&action=edit\<close>; the model keeps the two parts.
\<close>

record published =
  post_id :: json
  post_url :: json
  edit_site :: string
  message :: string

datatype publish_result = PublishSuccess published | PublishFailure string

text \<open>
  What the function reads of \<open>st.session_state\<close>: the term lists, empty when the key is
  absent.
\<close>

record session =
  wp_all_categories :: "wp_term list"
  wp_all_tags :: "wp_term list"

definition str_lower :: "json \<Rightarrow> exn + string" where
  \<comment> \<open>\<open>x.lower()\<close>\<close>
  "str_lower x =
     (case x of
        JStr s \<Rightarrow> Inr (lower s)
      | _ \<Rightarrow> Inl (AttributeError (sq @ type_name x @ sq @ '' object has no attribute ''
                                    @ sq @ ''lower'' @ sq)))"

fun selected_ids :: "wp_term list \<Rightarrow> string list \<Rightarrow> exn + json list" where
  \<comment> \<open>\<open>[t['id'] for t in all_existing if t['name'].lower() in [c.lower() for c in names]]\<close>\<close>
  "selected_ids [] names = Inr []"
| "selected_ids (t # ts) names =
     (case str_lower (term_name t) of
        Inl e \<Rightarrow> Inl e
      | Inr n \<Rightarrow>
          (case selected_ids ts names of
             Inl e \<Rightarrow> Inl e
           | Inr ids \<Rightarrow> Inr (if n \<in> set (map lower names) then term_id t # ids else ids)))"

definition post_request :: "string \<Rightarrow> (string, string) dict \<Rightarrow> (string, json) dict \<Rightarrow> request" where
  \<comment> \<open>\<open>requests.post(url, json=post_data, headers=self.wordpress_config['headers'], timeout=30)\<close>\<close>
  "post_request u hs post_data =
     \<lparr>meth = POST, url = u, req_headers = hs, req_body = JsonBody post_data, timeout = 30\<rparr>"

definition initial_post_data ::
  "(string \<Rightarrow> string) \<Rightarrow> string \<Rightarrow> string \<Rightarrow> string \<Rightarrow> json \<Rightarrow> (string, json) dict" where
  \<comment> \<open>\<open>post_data\<close> up to the assignment of \<open>featured_media\<close>; the first argument is
      \<open>\<lambda>c. markdown.markdown(c, extensions=['codehilite', 'fenced_code'])\<close>\<close>
  "initial_post_data md title content status featured_image_id =
     (let post_data = [(''title'', JStr title), (''content'', JStr (md content)),
                       (''status'', JStr status), (''format'', JStr ''standard'')]
      in if truthy featured_image_id
         then setitem ''featured_media'' featured_image_id post_data
         else post_data)"

definition after_post ::
  "int \<Rightarrow> string \<Rightarrow> string \<Rightarrow> string \<Rightarrow> string \<Rightarrow> config \<Rightarrow> outcome \<times> world
     \<Rightarrow> (exn + publish_result) \<times> world" where
  \<comment> \<open>what follows \<open>requests.post\<close> in \<open>publish_to_wordpress\<close>; the two branches differ
      in the status that means success, the keys read from the response and the texts\<close>
  "after_post created id_key link_key platform status cfg ow =
     (case ow of
        (Raised e, w') \<Rightarrow> (Inl e, w')
      | (Returned response, w') \<Rightarrow>
          if status_code response = created then
            (case response_json response of
               Inl e \<Rightarrow> (Inl e, w')
             | Inr post_info \<Rightarrow>
                 (case subscript post_info id_key of
                    Inl e \<Rightarrow> (Inl e, w')
                  | Inr i \<Rightarrow>
                      (case subscript post_info link_key of
                         Inl e \<Rightarrow> (Inl e, w')
                       | Inr l \<Rightarrow>
                           (Inr (PublishSuccess
                              \<lparr>post_id = i, post_url = l, edit_site = site_url cfg,
                               message = ''Post published successfully to '' @ platform
                                           @ '' (Status: '' @ status @ '')''\<rparr>), w'))))
          else
            (Inr (PublishFailure (platform @ '' API error: ''
                    @ str_int (status_code response) @ '' - '' @ text response)), w'))"

definition categories_unsupported :: ui_event where
  "categories_unsupported =
     Warning ''Categories not directly supported for WordPress.com via this API version's post creation. Post will be uncategorized or default.''"

definition publish_wpcom ::
  "server \<Rightarrow> config \<Rightarrow> string \<Rightarrow> string list option \<Rightarrow> string list option
     \<Rightarrow> (string, json) dict \<Rightarrow> world \<Rightarrow> (exn + publish_result) \<times> world" where
  \<comment> \<open>the WordPress.com branch\<close>
  "publish_wpcom srv cfg status categories tags post_data0 w =
     (let post_data = (case tags of
                         Some (t # ts) \<Rightarrow> setitem ''tags'' (JStr (join '','' (t # ts))) post_data0
                       | _ \<Rightarrow> post_data0);
          w1 = (case categories of
                  Some (c # cs) \<Rightarrow>
                    say categories_unsupported w
                | _ \<Rightarrow> w)
      in case get_api_url w1 ''/posts/new'' of
           Inl e \<Rightarrow> (Inl e, w1)
         | Inr u \<Rightarrow>
             after_post 200 ''ID'' ''URL'' ''WordPress.com'' status cfg
               (http srv (post_request u (deref w1 (headers cfg)) post_data) w1))"

definition resolve_terms ::
  "string \<Rightarrow> string \<Rightarrow> wp_term list \<Rightarrow> string list option \<Rightarrow> (string, json) dict \<Rightarrow> world
     \<Rightarrow> (exn + (string, json) dict) \<times> world" where
  \<comment> \<open>one of the two blocks \<open>if categories:\<close> and \<open>if tags:\<close>; the first argument is the
      key of \<open>post_data\<close>, the second the end of the warning\<close>
  "resolve_terms key unset all_existing names post_data w =
     (case names of
        Some (c # cs) \<Rightarrow>
          (case selected_ids all_existing (c # cs) of
             Inl e \<Rightarrow> (Inl e, w)
           | Inr ids \<Rightarrow>
               if ids \<noteq> [] then (Inr (setitem key (JArr ids) post_data), w)
               else (Inr post_data,
                     say (Warning (''None of the specified '' @ key @ '' ('' @ join '', '' (c # cs)
                            @ '') were found or selected. '' @ unset)) w))
      | _ \<Rightarrow> (Inr post_data, w))"

definition publish_self_hosted ::
  "server \<Rightarrow> session \<Rightarrow> config \<Rightarrow> string \<Rightarrow> string list option \<Rightarrow> string list option
     \<Rightarrow> (string, json) dict \<Rightarrow> world \<Rightarrow> (exn + publish_result) \<times> world" where
  \<comment> \<open>the self-hosted branch\<close>
  "publish_self_hosted srv ss cfg status categories tags post_data0 w =
     (case resolve_terms ''categories'' ''Post will be uncategorized or default.''
             (wp_all_categories ss) categories post_data0 w of
        (Inl e, w1) \<Rightarrow> (Inl e, w1)
      | (Inr post_data1, w1) \<Rightarrow>
          (case resolve_terms ''tags'' ''Post will be published without specified tags.''
                  (wp_all_tags ss) tags post_data1 w1 of
             (Inl e, w2) \<Rightarrow> (Inl e, w2)
           | (Inr post_data, w2) \<Rightarrow>
               (case get_api_url w2 ''/wp/v2/posts'' of
                  Inl e \<Rightarrow> (Inl e, w2)
                | Inr api_url \<Rightarrow>
                    after_post 201 ''id'' ''link'' ''WordPress'' status cfg
                      (http srv (post_request api_url (deref w2 (headers cfg)) post_data) w2))))"

fun publish_handlers :: "exn \<Rightarrow> publish_result" where
  "publish_handlers (Timeout m) =
     PublishFailure ''WordPress publishing timed out. The WordPress site might be slow or unreachable.''"
| "publish_handlers (RequestException m) =
     PublishFailure (''Network error during WordPress publishing: '' @ m)"
| "publish_handlers (JSONDecodeError m) =
     PublishFailure (''Network error during WordPress publishing: '' @ m)"
| "publish_handlers e = PublishFailure (''WordPress publishing error: '' @ str_exn e)"

definition publish_to_wordpress ::
  "server \<Rightarrow> (string \<Rightarrow> string) \<Rightarrow> session \<Rightarrow> string \<Rightarrow> string \<Rightarrow> string
     \<Rightarrow> string list option \<Rightarrow> string list option \<Rightarrow> json \<Rightarrow> world \<Rightarrow> publish_result \<times> world" where
  "publish_to_wordpress srv md ss title content status categories tags featured_image_id w =
     (case wordpress_config w of
        None \<Rightarrow> (PublishFailure ''WordPress not configured'', w)
      | Some cfg \<Rightarrow>
          (let post_data = initial_post_data md title content status featured_image_id
           in case (if is_wpcom cfg
                    then publish_wpcom srv cfg status categories tags post_data w
                    else publish_self_hosted srv ss cfg status categories tags post_data w) of
                (Inl e, w') \<Rightarrow> (publish_handlers e, w')
              | (Inr r, w') \<Rightarrow> (r, w')))"

section \<open>The publish button\<close>

text \<open>
  The handler of the publish button in \<open>main\<close>, from the check of \<open>wp_configured\<close> to
  the call of \<open>publish_to_wordpress\<close> and the message that reports its result. The
  pictographs that open the messages of the source are left out, as are the two links
  displayed after a success and the entry appended to \<open>publish_results\<close>.
\<close>

datatype image_option = NoImage | ManualUpload | AIGenerated

definition proceeding_without_image :: ui_event where
  "proceeding_without_image = Warning ''Proceeding to publish post without featured image.''"

definition upload_featured ::
  "server \<Rightarrow> image_option \<Rightarrow> string option \<Rightarrow> string \<Rightarrow> string \<Rightarrow> world \<Rightarrow> json \<times> world" where
  \<comment> \<open>the value of \<open>featured_media_id\<close> when \<open>publish_to_wordpress\<close> is called\<close>
  "upload_featured srv featured_image_option featured_image_data filename mime_type w =
     (if featured_image_option \<noteq> NoImage
         \<and> featured_image_data \<noteq> None \<and> featured_image_data \<noteq> Some [] then
        (case upload_image_to_wordpress srv (the featured_image_data) filename mime_type w of
           (UploadSuccess i u m, w1) \<Rightarrow> (i, say (Success m) w1)
         | (UploadFailure e, w1) \<Rightarrow>
             (JNull, say proceeding_without_image
                       (say (Error (''Failed to upload featured image: '' @ e)) w1)))
      else if featured_image_option \<noteq> NoImage then
        (JNull, say (Warning ''No image data available for featured image. Please upload/generate an image first.'') w)
      else (JNull, w))"

definition publish_clicked ::
  "server \<Rightarrow> (string \<Rightarrow> string) \<Rightarrow> bool \<Rightarrow> session \<Rightarrow> string \<Rightarrow> string \<Rightarrow> string
     \<Rightarrow> string list \<Rightarrow> string list \<Rightarrow> image_option \<Rightarrow> string option \<Rightarrow> string \<Rightarrow> string
     \<Rightarrow> world \<Rightarrow> publish_result option \<times> world" where
  \<comment> \<open>the third argument is \<open>st.session_state.get('wp_configured', False)\<close>; \<open>None\<close> is
      the early \<open>return\<close>\<close>
  "publish_clicked srv md wp_configured ss content_title generated_content publish_status
       selected_categories selected_tags featured_image_option featured_image_data
       filename mime_type w =
     (if \<not> wp_configured then
        (None, say (Error ''WordPress is not configured. Please set up your credentials in the sidebar and test the connection.'') w)
      else
        (case upload_featured srv featured_image_option featured_image_data filename mime_type w of
           (featured_media_id, w1) \<Rightarrow>
             (case publish_to_wordpress srv md ss content_title generated_content publish_status
                     (Some selected_categories) (Some selected_tags) featured_media_id w1 of
                (PublishSuccess p, w2) \<Rightarrow>
                  (Some (PublishSuccess p),
                   say (Success ''Content published successfully to WordPress!'') w2)
              | (PublishFailure e, w2) \<Rightarrow>
                  (Some (PublishFailure e),
                   say (Error (''WordPress Publishing Error: '' @ e)) w2))))"

section \<open>Parsing the files of a generated project\<close>

text \<open>
  \<open>parse_project_files\<close> uses two regular expressions. Each is modelled by a matcher
  written for it, which tries the alternatives in the order of the backtracking engine of
  \<open>re\<close>: the greedy \<open>\s*\<close> gives characters back one by one, \<open>[^\n]+\<close> runs to the end
  of the line, and the lazy \<open>.*?\<close> stops at the first closing fence.
\<close>

definition nl :: char where
  \<comment> \<open>the line feed\<close>
  "nl = CHR 0x0A"

definition backquotes :: string where
  "backquotes = [CHR 0x60, CHR 0x60, CHR 0x60]"

definition fence :: string where
  \<comment> \<open>a line feed and three backquotes\<close>
  "fence = nl # backquotes"

definition is_alnum :: "char \<Rightarrow> bool" where
  \<comment> \<open>the class \<open>[a-zA-Z0-9]\<close>\<close>
  "is_alnum c =
     (let n = (of_char c :: nat)
      in (48 \<le> n \<and> n \<le> 57) \<or> (65 \<le> n \<and> n \<le> 90) \<or> (97 \<le> n \<and> n \<le> 122))"

fun split_first :: "string \<Rightarrow> string \<Rightarrow> (string \<times> string) option" where
  \<comment> \<open>the text before and after the first occurrence of a string\<close>
  "split_first sub [] = (if sub = [] then Some ([], []) else None)"
| "split_first sub (c # cs) =
     (if startswith (c # cs) sub then Some ([], drop (length sub) (c # cs))
      else map_option (\<lambda>ba. (c # fst ba, snd ba)) (split_first sub cs))"

fun try_down :: "(nat \<Rightarrow> 'a option) \<Rightarrow> nat \<Rightarrow> 'a option" where
  \<comment> \<open>the first success among \<open>f k\<close>, \<open>f (k - 1)\<close>, ..., \<open>f 0\<close>\<close>
  "try_down f 0 = f 0"
| "try_down f (Suc k) = (case f (Suc k) of Some x \<Rightarrow> Some x | None \<Rightarrow> try_down f k)"

definition match_block :: "string \<Rightarrow> ((string \<times> string \<times> string) \<times> nat) option" where
  \<comment> \<open>\<open>([^\n]+)\n```(?:([a-zA-Z0-9]+))?\n(.*?)\n```\<close> at the start of a string: the three
      groups and the length of the match\<close>
  "match_block t =
     (let name = takeWhile (\<lambda>c. c \<noteq> nl) t;
          r1 = dropWhile (\<lambda>c. c \<noteq> nl) t
      in if name = [] \<or> \<not> startswith r1 fence then None
         else
           (let r2 = drop 4 r1;
                lang = takeWhile is_alnum r2;
                r3 = dropWhile is_alnum r2
            in if \<not> startswith r3 [nl] then None
               else
                 (case split_first fence (tl r3) of
                    None \<Rightarrow> None
                  | Some (file_content, rest) \<Rightarrow>
                      Some ((name, lang, file_content),
                            length name + 4 + length lang + 1 + length file_content + 4))))"

definition match_strict :: "string \<Rightarrow> ((string \<times> string \<times> string) \<times> nat) option" where
  \<comment> \<open>the strict pattern at the start of a string\<close>
  "match_strict s =
     (if startswith s ''FILE:'' then
        (let rest = drop 5 s
         in try_down (\<lambda>k. map_option (\<lambda>ml. (fst ml, 5 + k + snd ml)) (match_block (drop k rest)))
              (length (takeWhile is_space rest)))
      else None)"

fun findall_from :: "nat \<Rightarrow> string \<Rightarrow> (string \<times> string \<times> string) list" where
  \<comment> \<open>the scan of \<open>re.findall\<close>; the number counts the characters of the last match
      that are still to be passed\<close>
  "findall_from n [] = []"
| "findall_from (Suc n) (c # cs) = findall_from n cs"
| "findall_from 0 (c # cs) =
     (case match_strict (c # cs) of
        Some (m, len) \<Rightarrow> m # findall_from (len - 1) cs
      | None \<Rightarrow> findall_from 0 cs)"

definition findall_strict :: "string \<Rightarrow> (string \<times> string \<times> string) list" where
  \<comment> \<open>\<open>re.findall(r'FILE:\s*([^\n]+)\n```(?:([a-zA-Z0-9]+))?\n(.*?)\n```', content, re.DOTALL)\<close>\<close>
  "findall_strict content = findall_from 0 content"

definition match_marker :: "string \<Rightarrow> nat option" where
  \<comment> \<open>\<open>FILE:\s*[^\n]+\<close>, ignoring case, at the start of a string: the length of the match\<close>
  "match_marker s =
     (if startswith (lower (take 5 s)) ''file:'' then
        (let rest = drop 5 s
         in try_down (\<lambda>k. let name = takeWhile (\<lambda>c. c \<noteq> nl) (drop k rest)
                           in if name = [] then None else Some (5 + k + length name))
              (length (takeWhile is_space rest)))
      else None)"

fun split_from :: "nat \<Rightarrow> string \<Rightarrow> string \<Rightarrow> string list" where
  \<comment> \<open>the scan of \<open>re.split\<close> with a capturing group: the text gathered since the last
      match, then the rest of the string\<close>
  "split_from n cur [] = [cur]"
| "split_from (Suc n) cur (c # cs) = split_from n cur cs"
| "split_from 0 cur (c # cs) =
     (case match_marker (c # cs) of
        Some len \<Rightarrow> cur # take len (c # cs) # split_from (len - 1) [] cs
      | None \<Rightarrow> split_from 0 (cur @ [c]) cs)"

definition split_markers :: "string \<Rightarrow> string list" where
  \<comment> \<open>\<open>re.split(r'(FILE:\s*[^\n]+)', content, flags=re.IGNORECASE)\<close>\<close>
  "split_markers content = split_from 0 [] content"

definition strict_files :: "(string \<times> string \<times> string) list \<Rightarrow> (string, string) dict" where
  \<comment> \<open>the first loop: \<open>files[filename.strip()] = file_content.strip()\<close>\<close>
  "strict_files ms = foldl (\<lambda>files m. setitem (strip (fst m)) (strip (snd (snd m))) files) [] ms"

definition flush :: "string option \<Rightarrow> string list \<Rightarrow> (string, string) dict \<Rightarrow> (string, string) dict" where
  \<comment> \<open>\<open>if current_filename and current_content: files[current_filename] = ...\<close>\<close>
  "flush current_filename current_content files =
     (case current_filename of
        Some (c # cs) \<Rightarrow>
          if current_content \<noteq> []
          then setitem (c # cs) (strip (join [nl] current_content)) files
          else files
      | _ \<Rightarrow> files)"

fun lenient_loop ::
  "string list \<Rightarrow> (string, string) dict \<Rightarrow> string option \<Rightarrow> string list \<Rightarrow> (string, string) dict" where
  \<comment> \<open>the loop over \<open>potential_files\<close>, followed by the assignment after it\<close>
  "lenient_loop [] files current_filename current_content =
     flush current_filename current_content files"
| "lenient_loop (part # parts) files current_filename current_content =
     (if startswith (lower part) ''file:'' then
        lenient_loop parts (flush current_filename current_content files)
          (Some (strip (replace part ''FILE:'' []))) []
      else lenient_loop parts files current_filename (current_content @ [part]))"

definition unfence :: "string \<Rightarrow> string" where
  \<comment> \<open>the body of the loop over \<open>files.items()\<close>\<close>
  "unfence fcontent =
     (if startswith fcontent backquotes \<and> endswith fcontent backquotes
      then strip (join [nl] (butlast (tl (split_on nl fcontent))))
      else if startswith fcontent backquotes
      then strip (join [nl] (tl (split_on nl fcontent)))
      else fcontent)"

definition lenient_files :: "string \<Rightarrow> (string, string) dict" where
  \<comment> \<open>the block under the first \<open>if not files:\<close>\<close>
  "lenient_files content =
     map (\<lambda>kv. (fst kv, unfence (snd kv))) (lenient_loop (split_markers content) [] None [])"

definition placeholder_files :: "(string, string) dict" where
  "placeholder_files =
     [(''README.md'', ''# AI Generated Project'' @ [nl, nl]
          @ ''Project generated by AI Content Agent Pro''),
      (''main.py'', ''# Main project file'' @ [nl] @ ''print('' @ sq @ ''Hello, World!'' @ sq @ '')''),
      (''requirements.txt'', ''# Add your dependencies here'')]"

definition strict_failed :: ui_event where
  "strict_failed =
     Warning (''Could not parse files using strict FILE: and '' @ backquotes
                @ '' markers. Attempting simpler parsing.'')"

definition nothing_parsed :: ui_event where
  "nothing_parsed =
     Error ''Failed to parse any files from AI response. Generated minimal placeholder files.''"

definition parse_project_files :: "string \<Rightarrow> (string, string) dict \<times> ui_event list" where
  \<comment> \<open>the mapping returned, and what was displayed\<close>
  "parse_project_files content =
     (let files = strict_files (findall_strict content)
      in if files \<noteq> [] then (files, [])
         else
           (let files = lenient_files content
            in if files \<noteq> [] then (files, [strict_failed])
               else (placeholder_files, [strict_failed, nothing_parsed])))"

section \<open>The requests of an upload and of a post\<close>

text \<open>
  The request that \<open>upload_image_to_wordpress\<close> sends for a self-hosted site: its headers
  are the copy of the shared headers after the two assignments.
\<close>

definition upload_headers :: "world \<Rightarrow> config \<Rightarrow> string \<Rightarrow> string \<Rightarrow> (string, string) dict" where
  "upload_headers w cfg filename mime_type =
     setitem ''Content-Disposition'' (''attachment; filename='' @ dq @ filename @ dq)
       (setitem ''Content-Type'' mime_type (deref w (headers cfg)))"

definition upload_request :: "world \<Rightarrow> config \<Rightarrow> string \<Rightarrow> string \<Rightarrow> string \<Rightarrow> request" where
  "upload_request w cfg image_data filename mime_type =
     media_request (if use_query_params cfg = Some True
                    then site_url cfg @ ''/?rest_route=/wp/v2/media''
                    else site_url cfg @ ''/wp-json/wp/v2/media'')
       (upload_headers w cfg filename mime_type) image_data"

text \<open>
  Term resolution as the specification words it: a case-insensitive exact match of each
  requested name against the cached \<open>{id, name}\<close> entries, returning the identifiers of
  the entries matched, in the order of the cache.
\<close>

definition resolveTermIds :: "string list \<Rightarrow> (int \<times> string) list \<Rightarrow> int list" where
  "resolveTermIds names cache =
     map fst (filter (\<lambda>e. \<exists>n \<in> set names. lower n = lower (snd e)) cache)"

definition typed_terms :: "(int \<times> string) list \<Rightarrow> wp_term list" where
  \<comment> \<open>a term list as a well-formed response fills it\<close>
  "typed_terms cache = map (\<lambda>e. mk_term (fst e) (snd e)) cache"

definition typed_session :: "(int \<times> string) list \<Rightarrow> (int \<times> string) list \<Rightarrow> session" where
  "typed_session cats tgs = \<lparr>wp_all_categories = typed_terms cats, wp_all_tags = typed_terms tgs\<rparr>"

definition with_terms ::
  "string \<Rightarrow> string list option \<Rightarrow> (int \<times> string) list \<Rightarrow> (string, json) dict \<Rightarrow> (string, json) dict" where
  \<comment> \<open>\<open>post_data\<close> after one of the two term blocks\<close>
  "with_terms key names cache post_data =
     (case names of
        Some (c # cs) \<Rightarrow>
          if resolveTermIds (c # cs) cache = [] then post_data
          else setitem key (JArr (map JInt (resolveTermIds (c # cs) cache))) post_data
      | _ \<Rightarrow> post_data)"

definition none_found :: "string \<Rightarrow> string \<Rightarrow> string list \<Rightarrow> ui_event" where
  \<comment> \<open>the warning of a term block\<close>
  "none_found key unset names =
     Warning (''None of the specified '' @ key @ '' ('' @ join '', '' names
                @ '') were found or selected. '' @ unset)"

definition terms_warning ::
  "string \<Rightarrow> string \<Rightarrow> string list option \<Rightarrow> (int \<times> string) list \<Rightarrow> ui_event list" where
  \<comment> \<open>what one of the two term blocks displays\<close>
  "terms_warning key unset names cache =
     (case names of
        Some (c # cs) \<Rightarrow>
          if resolveTermIds (c # cs) cache = [] then [none_found key unset (c # cs)] else []
      | _ \<Rightarrow> [])"

definition categories_unset :: string where
  "categories_unset = ''Post will be uncategorized or default.''"

definition tags_unset :: string where
  "tags_unset = ''Post will be published without specified tags.''"

definition self_hosted_post :: "world \<Rightarrow> config \<Rightarrow> (string, json) dict \<Rightarrow> request" where
  \<comment> \<open>the request that creates the post on a self-hosted site\<close>
  "self_hosted_post w cfg post_data =
     post_request (if use_query_params cfg = Some True
                   then site_url cfg @ ''/?rest_route=/wp/v2/posts''
                   else site_url cfg @ ''/wp-json/wp/v2/posts'')
       (deref w (headers cfg)) post_data"

definition self_hosted_post_data ::
  "(string \<Rightarrow> string) \<Rightarrow> string \<Rightarrow> string \<Rightarrow> string \<Rightarrow> string list option \<Rightarrow> (int \<times> string) list
     \<Rightarrow> string list option \<Rightarrow> (int \<times> string) list \<Rightarrow> json \<Rightarrow> (string, json) dict" where
  \<comment> \<open>\<open>post_data\<close> as the self-hosted branch sends it\<close>
  "self_hosted_post_data md title content status categories cats tags tgs featured_image_id =
     with_terms ''tags'' tags tgs
       (with_terms ''categories'' categories cats
          (initial_post_data md title content status featured_image_id))"

definition hosted_post_data ::
  "(string \<Rightarrow> string) \<Rightarrow> string \<Rightarrow> string \<Rightarrow> string \<Rightarrow> string list option \<Rightarrow> json
     \<Rightarrow> (string, json) dict" where
  \<comment> \<open>\<open>post_data\<close> as the WordPress.com branch sends it\<close>
  "hosted_post_data md title content status tags featured_image_id =
     (case tags of
        Some (t # ts) \<Rightarrow>
          setitem ''tags'' (JStr (join '','' (t # ts)))
            (initial_post_data md title content status featured_image_id)
      | _ \<Rightarrow> initial_post_data md title content status featured_image_id)"

definition valid_headers :: "world \<Rightarrow> bool" where
  \<comment> \<open>the reference under \<open>headers\<close> points into the store, as it does after
      \<open>setup_wordpress\<close>\<close>
  "valid_headers w =
     (case wordpress_config w of None \<Rightarrow> True | Some cfg \<Rightarrow> headers cfg < length (store w))"

section \<open>The operations that follow a connection test\<close>

text \<open>
  What a session calls on the publisher between two connection tests: fetching the terms
  of a kind, uploading an image, publishing a post, in any order and number. Each takes
  the state and gives the state that it leaves.
\<close>

datatype operation =
    FetchTerms string
  | UploadImage string string string
  | PublishPost session string string string "string list option" "string list option" json

fun run_operation :: "server \<Rightarrow> (string \<Rightarrow> string) \<Rightarrow> world \<Rightarrow> operation \<Rightarrow> world" where
  "run_operation srv md w (FetchTerms term_type) = snd (get_terms_robust srv term_type w)"
| "run_operation srv md w (UploadImage image_data filename mime_type) =
     snd (upload_image_to_wordpress srv image_data filename mime_type w)"
| "run_operation srv md w (PublishPost ss title content status categories tags featured_image_id) =
     snd (publish_to_wordpress srv md ss title content status categories tags featured_image_id w)"

definition run_operations :: "server \<Rightarrow> (string \<Rightarrow> string) \<Rightarrow> operation list \<Rightarrow> world \<Rightarrow> world" where
  "run_operations srv md ops w = foldl (run_operation srv md) w ops"

section \<open>A sample session\<close>

text \<open>
  A self-hosted site configured as in the end-to-end scenario of the specification, and
  servers that answer by the position of the request in the session.
\<close>

definition example_world :: world where
  "example_world = setup_wordpress ''https://example.com'' ''admin'' ''app-pw'' init_world"

definition example_config :: config where
  "example_config =
     \<lparr>site_url = ''https://example.com'', site_domain = None, username = ''admin'',
      password = ''app-pw'', is_wpcom = False, api_base = None, use_query_params = None,
      headers = 0\<rparr>"

definition reply :: "int \<Rightarrow> string \<Rightarrow> string + json \<Rightarrow> outcome" where
  "reply s t d = Returned \<lparr>status_code = s, text = t, decoded = d\<rparr>"

definition server_401 :: server where
  "server_401 past r = reply 401 ''Unauthorized'' (Inl ''Expecting value'')"

definition server_404_then_500 :: server where
  "server_404_then_500 past r =
     (if past = [] then reply 404 ''Not Found'' (Inl ''Expecting value'')
      else reply 500 ''down'' (Inl ''Expecting value''))"

definition server_404_then_html :: server where
  "server_404_then_html past r =
     (if past = [] then reply 404 ''Not Found'' (Inl ''Expecting value'')
      else reply 200 ''<html></html>'' (Inl ''Expecting value''))"

definition server_404_then_json :: server where
  "server_404_then_json past r =
     (if past = [] then reply 404 ''Not Found'' (Inl ''Expecting value'')
      else reply 200 ''{}'' (Inr (JObj [(''name'', JStr ''admin'')])))"

definition server_200_json :: server where
  "server_200_json past r = reply 200 ''{}'' (Inr (JObj [(''name'', JStr ''admin'')]))"

definition server_media_500 :: server where
  "server_media_500 past r = reply 500 ''boom'' (Inl ''Expecting value'')"

definition server_created :: server where
  \<comment> \<open>answers every request with 201 and a post record\<close>
  "server_created past r =
     reply 201 ''{}'' (Inr (JObj [(''id'', JInt 7), (''link'', JStr ''https://example.com/?p=7'')]))"

definition plain_markdown :: "string \<Rightarrow> string" where
  \<comment> \<open>a stand-in for \<open>markdown.markdown\<close> in the examples: one paragraph\<close>
  "plain_markdown c = ''<p>'' @ c @ ''</p>''"

definition hosted_world :: world where
  "hosted_world = setup_wordpress ''https://myblog.wordpress.com'' ''me'' ''token'' init_world"

definition hosted_config :: config where
  "hosted_config =
     \<lparr>site_url = ''https://myblog.wordpress.com'', site_domain = Some ''myblog.wordpress.com'',
      username = ''me'', password = ''token'', is_wpcom = True,
      api_base = Some ''https://public-api.wordpress.com/rest/v1.1/sites/myblog.wordpress.com'',
      use_query_params = None, headers = 0\<rparr>"

definition server_media_without_url :: server where
  \<comment> \<open>answers the first request with 201 and a record that lacks \<open>source_url\<close>, the
      later ones with 201 and a post record\<close>
  "server_media_without_url past r =
     (if past = [] then reply 201 ''{}'' (Inr (JObj [(''id'', JInt 12)]))
      else reply 201 ''{}'' (Inr (JObj [(''id'', JInt 7), (''link'', JStr ''https://example.com/?p=7'')])))"

definition server_media_ok :: server where
  \<comment> \<open>answers the first request with 201 and a media record, the later ones with 201
      and a post record\<close>
  "server_media_ok past r =
     (if past = []
      then reply 201 ''{}'' (Inr (JObj [(''id'', JInt 12),
                                        (''source_url'', JStr ''https://example.com/a.png'')]))
      else reply 201 ''{}'' (Inr (JObj [(''id'', JInt 7), (''link'', JStr ''https://example.com/?p=7'')])))"

definition server_media_fails :: server where
  \<comment> \<open>answers the first request with 500, the later ones with 201 and a post record\<close>
  "server_media_fails past r =
     (if past = [] then reply 500 ''boom'' (Inl ''Expecting value'')
      else reply 201 ''{}'' (Inr (JObj [(''id'', JInt 7), (''link'', JStr ''https://example.com/?p=7'')])))"

definition one_file_reply :: string where
  \<comment> \<open>a generated answer with one file block\<close>
  "one_file_reply =
     ''Here is the project.'' @ [nl] @ ''FILE: main.py '' @ [nl] @ backquotes @ ''python'' @ [nl]
       @ ''  print(1)'' @ [nl] @ [nl] @ backquotes @ [nl]"

definition server_200_html :: server where
  "server_200_html past r = reply 200 ''<html></html>'' (Inl ''Expecting value'')"

definition server_media_html :: server where
  \<comment> \<open>answers the first request with 201 and a body that is not JSON, the later ones with
      201 and a post record\<close>
  "server_media_html past r =
     (if past = [] then reply 201 ''<html></html>'' (Inl ''Expecting value'')
      else reply 201 ''{}'' (Inr (JObj [(''id'', JInt 7), (''link'', JStr ''https://example.com/?p=7'')])))"

definition server_media_zero :: server where
  \<comment> \<open>answers the first request with 201 and a media record whose identifier is 0, the
      later ones with 201 and a post record\<close>
  "server_media_zero past r =
     (if past = []
      then reply 201 ''{}'' (Inr (JObj [(''id'', JInt 0),
                                        (''source_url'', JStr ''https://example.com/a.png'')]))
      else reply 201 ''{}'' (Inr (JObj [(''id'', JInt 7), (''link'', JStr ''https://example.com/?p=7'')])))"

section \<open>Facts about the sample session\<close>

lemma example_world_config: "wordpress_config example_world = Some example_config"
  by (simp add: example_world_def example_config_def setup_wordpress_def init_world_def
      alloc_def startswith_def lower_def lower_char_def rstrip_char_def)

lemma example_world_sent: "sent example_world = []"
  by (simp add: example_world_def setup_wordpress_def init_world_def alloc_def Let_def
      split: prod.splits)

lemma example_config_self_hosted: "\<not> is_wpcom example_config"
  by (simp add: example_config_def)

lemma str_int_500: "str_int 500 = ''500''"
  by code_simp

lemma str_int_404: "str_int 404 = ''404''"
  by code_simp

section \<open>The connection test, request by request\<close>

lemma test_self_hosted_first:
  assumes "wordpress_config w = Some cfg" "\<not> is_wpcom cfg"
  shows "test_self_hosted srv cfg w =
     after_first srv cfg (length (store w))
       (srv (sent w) (first_probe w cfg),
        w\<lparr>store := store w @ [probe_headers w cfg], sent := sent w @ [first_probe w cfg]\<rparr>)"
  using assms
  by (simp add: test_self_hosted_def dict_copy_def alloc_def dict_assign_def deref_def
      get_api_url_def http_def probe_headers_def first_probe_def Let_def)

lemma after_first_404:
  assumes "status_code r = 404" "store w3 ! h = probe_headers w cfg"
  shows "after_first srv cfg h (Returned r, w3) =
     after_fallback (srv (sent w3) (fallback_probe w cfg),
        w3\<lparr>sent := sent w3 @ [fallback_probe w cfg]\<rparr>)"
  using assms
  by (simp add: after_first_def http_def fallback_probe_def deref_def Let_def)

text \<open>
  C8. In a self-hosted connection test whose first probe is answered with status 401, the
  result is the authentication failure, and the first probe is the only request issued:
  the query-parameter fallback is not attempted.
\<close>

theorem first_probe_401_is_terminal:
  assumes "wordpress_config w = Some cfg" and "\<not> is_wpcom cfg"
    and "srv (sent w) (first_probe w cfg) = Returned r" and "status_code r = 401"
  shows "fst (test_wordpress_connection srv w) = ConnFailure auth_failed
       \<and> sent (snd (test_wordpress_connection srv w)) = sent w @ [first_probe w cfg]"
  using assms
  by (simp add: test_wordpress_connection_def test_self_hosted_first after_first_def)

theorem first_probe_401_is_terminal_witness:
  "wordpress_config example_world = Some example_config
   \<and> \<not> is_wpcom example_config
   \<and> server_401 (sent example_world) (first_probe example_world example_config)
       = Returned \<lparr>status_code = 401, text = ''Unauthorized'', decoded = Inl ''Expecting value''\<rparr>
   \<and> fst (test_wordpress_connection server_401 example_world) = ConnFailure auth_failed
   \<and> sent (snd (test_wordpress_connection server_401 example_world))
       = sent example_world @ [first_probe example_world example_config]"
  using first_probe_401_is_terminal [OF example_world_config example_config_self_hosted,
      of server_401 "\<lparr>status_code = 401, text = ''Unauthorized'', decoded = Inl ''Expecting value''\<rparr>"]
  by (simp add: example_world_config example_config_self_hosted server_401_def reply_def)

lemma get_api_url_query:
  assumes "wordpress_config w = Some cfg" "\<not> is_wpcom cfg" "use_query_params cfg = Some True"
  shows "get_api_url w endpoint = Inr (site_url cfg @ ''/?rest_route='' @ endpoint)"
  using assms by (simp add: get_api_url_def)

text \<open>
  C1 as stated fails: the first probe is answered with 404 and the fallback with status
  200 and a body that is not JSON; \<open>response.json()\<close> raises before the assignment, the
  configuration is left as it was, and \<open>_get_api_url\<close> keeps returning the \<open>/wp-json\<close>
  form.
\<close>

theorem permalink_mode_counterexample:
  "server_404_then_html (sent example_world) (first_probe example_world example_config)
     = Returned \<lparr>status_code = 404, text = ''Not Found'', decoded = Inl ''Expecting value''\<rparr>
   \<and> server_404_then_html (sent example_world @ [first_probe example_world example_config])
       (fallback_probe example_world example_config)
     = Returned \<lparr>status_code = 200, text = ''<html></html>'', decoded = Inl ''Expecting value''\<rparr>
   \<and> wordpress_config (snd (test_wordpress_connection server_404_then_html example_world))
     = Some example_config
   \<and> use_query_params example_config \<noteq> Some True
   \<and> get_api_url (snd (test_wordpress_connection server_404_then_html example_world)) ''/wp/v2/posts''
     = Inr ''https://example.com/wp-json/wp/v2/posts''
   \<and> get_api_url (snd (test_wordpress_connection server_404_then_html example_world)) ''/wp/v2/posts''
     \<noteq> Inr ''https://example.com/?rest_route=/wp/v2/posts''"
proof -
  have a: "server_404_then_html (sent example_world) (first_probe example_world example_config)
     = Returned \<lparr>status_code = 404, text = ''Not Found'', decoded = Inl ''Expecting value''\<rparr>"
    by (simp add: server_404_then_html_def reply_def example_world_sent)
  have b: "server_404_then_html (sent example_world @ [first_probe example_world example_config])
       (fallback_probe example_world example_config)
     = Returned \<lparr>status_code = 200, text = ''<html></html>'', decoded = Inl ''Expecting value''\<rparr>"
    by (simp add: server_404_then_html_def reply_def)
  have c: "wordpress_config (snd (test_wordpress_connection server_404_then_html example_world))
     = Some example_config"
    by (simp add: test_wordpress_connection_def example_world_config example_config_self_hosted
        test_self_hosted_first a after_first_404 [where w = example_world and cfg = example_config]
        b after_fallback_def response_json_def)
  have d: "use_query_params example_config \<noteq> Some True"
    by (simp add: example_config_def)
  have e: "get_api_url (snd (test_wordpress_connection server_404_then_html example_world)) ''/wp/v2/posts''
     = Inr ''https://example.com/wp-json/wp/v2/posts''"
    by (simp add: get_api_url_def c) (simp add: example_config_def)
  from a b c d e show ?thesis by simp
qed

text \<open>
  C3, as amended. In a self-hosted connection test whose first probe is answered with 404
  and whose query-parameter fallback is answered with a status other than 200 and 401, the
  result is the generic API error, and its message carries the status and the text of the
  fallback response only; both requests were issued.
\<close>

theorem fallback_other_status_reports_fallback_only:
  assumes "wordpress_config w = Some cfg" and "\<not> is_wpcom cfg"
    and "srv (sent w) (first_probe w cfg) = Returned r1" and "status_code r1 = 404"
    and "srv (sent w @ [first_probe w cfg]) (fallback_probe w cfg) = Returned r2"
    and "status_code r2 \<noteq> 200" and "status_code r2 \<noteq> 401"
  shows "fst (test_wordpress_connection srv w) =
           ConnFailure (''WordPress API error: '' @ str_int (status_code r2) @ '' - '' @ text r2
                          @ ''. Check if REST API is enabled and credentials are correct.'')
       \<and> sent (snd (test_wordpress_connection srv w)) =
           sent w @ [first_probe w cfg, fallback_probe w cfg]"
  using assms
  by (simp add: test_wordpress_connection_def test_self_hosted_first
      after_first_404 [where w = w and cfg = cfg] after_fallback_def api_error_def)

theorem fallback_other_status_reports_fallback_only_witness:
  "wordpress_config example_world = Some example_config
   \<and> \<not> is_wpcom example_config
   \<and> server_404_then_500 (sent example_world) (first_probe example_world example_config)
     = Returned \<lparr>status_code = 404, text = ''Not Found'', decoded = Inl ''Expecting value''\<rparr>
   \<and> server_404_then_500 (sent example_world @ [first_probe example_world example_config])
       (fallback_probe example_world example_config)
     = Returned \<lparr>status_code = 500, text = ''down'', decoded = Inl ''Expecting value''\<rparr>
   \<and> fst (test_wordpress_connection server_404_then_500 example_world)
     = ConnFailure ''WordPress API error: 500 - down. Check if REST API is enabled and credentials are correct.''
   \<and> sent (snd (test_wordpress_connection server_404_then_500 example_world))
     = sent example_world @ [first_probe example_world example_config,
                             fallback_probe example_world example_config]"
proof -
  have a: "server_404_then_500 (sent example_world) (first_probe example_world example_config)
     = Returned \<lparr>status_code = 404, text = ''Not Found'', decoded = Inl ''Expecting value''\<rparr>"
    by (simp add: server_404_then_500_def reply_def example_world_sent)
  have b: "server_404_then_500 (sent example_world @ [first_probe example_world example_config])
       (fallback_probe example_world example_config)
     = Returned \<lparr>status_code = 500, text = ''down'', decoded = Inl ''Expecting value''\<rparr>"
    by (simp add: server_404_then_500_def reply_def)
  note t = fallback_other_status_reports_fallback_only
      [where w = example_world and cfg = example_config and srv = server_404_then_500
         and ?r1.0 = "\<lparr>status_code = 404, text = ''Not Found'', decoded = Inl ''Expecting value''\<rparr>"
         and ?r2.0 = "\<lparr>status_code = 500, text = ''down'', decoded = Inl ''Expecting value''\<rparr>"]
  from t show ?thesis
    using a b example_world_config example_config_self_hosted by (simp add: str_int_500)
qed

text \<open>
  C3 as stated fails: with a first probe answered 404 and a fallback answered 500, the
  message of the error names 500 and nowhere 404, the status of the first response.
\<close>

theorem both_statuses_counterexample:
  "server_404_then_500 (sent example_world) (first_probe example_world example_config)
     = Returned \<lparr>status_code = 404, text = ''Not Found'', decoded = Inl ''Expecting value''\<rparr>
   \<and> server_404_then_500 (sent example_world @ [first_probe example_world example_config])
       (fallback_probe example_world example_config)
     = Returned \<lparr>status_code = 500, text = ''down'', decoded = Inl ''Expecting value''\<rparr>
   \<and> fst (test_wordpress_connection server_404_then_500 example_world)
     = ConnFailure ''WordPress API error: 500 - down. Check if REST API is enabled and credentials are correct.''
   \<and> \<not> contains ''WordPress API error: 500 - down. Check if REST API is enabled and credentials are correct.''
         (str_int 404)"
proof -
  have a: "server_404_then_500 (sent example_world) (first_probe example_world example_config)
     = Returned \<lparr>status_code = 404, text = ''Not Found'', decoded = Inl ''Expecting value''\<rparr>"
    by (simp add: server_404_then_500_def reply_def example_world_sent)
  have b: "server_404_then_500 (sent example_world @ [first_probe example_world example_config])
       (fallback_probe example_world example_config)
     = Returned \<lparr>status_code = 500, text = ''down'', decoded = Inl ''Expecting value''\<rparr>"
    by (simp add: server_404_then_500_def reply_def)
  have c: "fst (test_wordpress_connection server_404_then_500 example_world)
     = ConnFailure ''WordPress API error: 500 - down. Check if REST API is enabled and credentials are correct.''"
    by (simp add: test_wordpress_connection_def example_world_config example_config_self_hosted
        test_self_hosted_first a after_first_404 [where w = example_world and cfg = example_config]
        b after_fallback_def api_error_def str_int_500)
  have d: "\<not> contains ''WordPress API error: 500 - down. Check if REST API is enabled and credentials are correct.''
         (str_int 404)"
    by (simp add: str_int_404 startswith_def)
  from a b c d show ?thesis by simp
qed

section \<open>Operations before configuration\<close>

text \<open>
  C2, evaluated on a publisher that was never configured: the connection test, the upload
  and the publication return their "not configured" result, while fetching categories or
  tags raises \<open>KeyError\<close> to the caller, from \<open>self.wordpress_config['headers']\<close>,
  which \<open>_get_terms_robust\<close> evaluates before its \<open>try\<close> block.
\<close>

theorem unconfigured_fetch_raises:
  "fetch_categories srv init_world = (Inl (KeyError ''headers''), init_world)
   \<and> fetch_tags srv init_world = (Inl (KeyError ''headers''), init_world)
   \<and> test_wordpress_connection srv init_world
       = (ConnFailure ''WordPress not configured'', init_world)
   \<and> upload_image_to_wordpress srv image_data filename mime_type init_world
       = (UploadFailure ''WordPress not configured'', init_world)
   \<and> publish_to_wordpress srv md ss title content status categories tags featured_image_id init_world
       = (PublishFailure ''WordPress not configured'', init_world)"
  by (simp add: fetch_categories_def fetch_tags_def get_terms_robust_def
      test_wordpress_connection_def upload_image_to_wordpress_def publish_to_wordpress_def
      init_world_def)

section \<open>Media upload and the shared headers\<close>

lemma map_of_setitem: "map_of (setitem k v d) = (map_of d)(k \<mapsto> v)"
  by (induction d) auto

lemma getitem_setitem:
  "getitem (setitem k v d) k' = (if k' = k then Some v else getitem d k')"
  by (simp add: getitem_def map_of_setitem)

lemma upload_try_request:
  assumes "wordpress_config w = Some cfg" "\<not> is_wpcom cfg"
  shows "upload_try srv cfg image_data filename mime_type w =
           after_upload filename
             (srv (sent w) (upload_request w cfg image_data filename mime_type),
              w\<lparr>store := store w @ [upload_headers w cfg filename mime_type],
                sent := sent w @ [upload_request w cfg image_data filename mime_type]\<rparr>)"
  using assms
  by (simp add: upload_try_def get_api_url_def dict_copy_def alloc_def dict_assign_def deref_def
      http_def upload_headers_def upload_request_def Let_def)

lemma after_upload_world: "snd (after_upload filename (out, w)) = w"
  by (simp add: after_upload_def split: outcome.splits sum.splits)

lemma upload_world:
  assumes "wordpress_config w = Some cfg" "\<not> is_wpcom cfg"
  shows "snd (upload_image_to_wordpress srv image_data filename mime_type w) =
           w\<lparr>store := store w @ [upload_headers w cfg filename mime_type],
             sent := sent w @ [upload_request w cfg image_data filename mime_type]\<rparr>"
proof -
  obtain r where "after_upload filename
             (srv (sent w) (upload_request w cfg image_data filename mime_type),
              w\<lparr>store := store w @ [upload_headers w cfg filename mime_type],
                sent := sent w @ [upload_request w cfg image_data filename mime_type]\<rparr>)
          = (r, w\<lparr>store := store w @ [upload_headers w cfg filename mime_type],
                sent := sent w @ [upload_request w cfg image_data filename mime_type]\<rparr>)"
    using after_upload_world by (metis prod.collapse)
  with assms show ?thesis
    by (simp add: upload_image_to_wordpress_def upload_try_request split: sum.splits)
qed

text \<open>
  C9. For a self-hosted connection, \<open>upload_image_to_wordpress\<close> sends one request whose
  \<open>Content-Type\<close> is the MIME type of the asset, whose \<open>Content-Disposition\<close> is the
  attachment header with the file name, and whose \<open>Authorization\<close> is the shared one;
  whatever the answer, a response of any status or an exception, the configuration and
  the shared header dictionary are afterwards what they were before the call.
\<close>

theorem upload_leaves_shared_headers:
  assumes "wordpress_config w = Some cfg" and "\<not> is_wpcom cfg" and "valid_headers w"
  shows "wordpress_config (snd (upload_image_to_wordpress srv image_data filename mime_type w))
           = Some cfg
       \<and> deref (snd (upload_image_to_wordpress srv image_data filename mime_type w)) (headers cfg)
           = deref w (headers cfg)
       \<and> sent (snd (upload_image_to_wordpress srv image_data filename mime_type w))
           = sent w @ [upload_request w cfg image_data filename mime_type]
       \<and> getitem (req_headers (upload_request w cfg image_data filename mime_type)) ''Content-Type''
           = Some mime_type
       \<and> getitem (req_headers (upload_request w cfg image_data filename mime_type))
             ''Content-Disposition''
           = Some (''attachment; filename='' @ dq @ filename @ dq)
       \<and> getitem (req_headers (upload_request w cfg image_data filename mime_type)) ''Authorization''
           = getitem (deref w (headers cfg)) ''Authorization''"
  using assms
  by (simp add: upload_world valid_headers_def deref_def nth_append upload_request_def
      media_request_def upload_headers_def getitem_setitem)

lemma example_world_store:
  "store example_world =
     [[(''Content-Type'', ''application/json''), (''Authorization'', ''Basic YWRtaW46YXBwLXB3'')]]"
  by code_simp

theorem upload_leaves_shared_headers_witness:
  "wordpress_config example_world = Some example_config
   \<and> \<not> is_wpcom example_config
   \<and> valid_headers example_world
   \<and> deref (snd (upload_image_to_wordpress server_media_500 ''bytes'' ''a.png'' ''image/png''
                    example_world)) (headers example_config)
      = [(''Content-Type'', ''application/json''), (''Authorization'', ''Basic YWRtaW46YXBwLXB3'')]
   \<and> getitem (req_headers (upload_request example_world example_config ''bytes'' ''a.png'' ''image/png''))
        ''Content-Type'' = Some ''image/png''"
proof -
  have v: "valid_headers example_world"
    by (simp add: valid_headers_def example_world_config example_world_store example_config_def)
  have d: "deref example_world (headers example_config)
      = [(''Content-Type'', ''application/json''), (''Authorization'', ''Basic YWRtaW46YXBwLXB3'')]"
    by (simp add: deref_def example_world_store example_config_def)
  from upload_leaves_shared_headers [OF example_world_config example_config_self_hosted v,
      of server_media_500 "''bytes''" "''a.png''" "''image/png''"]
  show ?thesis
    using v d example_world_config example_config_self_hosted by simp
qed

section \<open>Term resolution and the post request\<close>

lemma selected_ids_typed:
  "selected_ids (typed_terms cache) names = Inr (map JInt (resolveTermIds names cache))"
proof (induction cache)
  case Nil
  show ?case by (simp add: typed_terms_def resolveTermIds_def)
next
  case (Cons e cache)
  have "(lower (snd e) \<in> set (map lower names)) = (\<exists>n \<in> set names. lower n = lower (snd e))"
    by (metis (no_types) image_iff set_map)
  with Cons show ?case
    by (simp add: typed_terms_def resolveTermIds_def mk_term_def str_lower_def)
qed

lemma resolve_terms_typed:
  "resolve_terms key unset (typed_terms cache) names post_data w =
     (Inr (with_terms key names cache post_data),
      w\<lparr>ui := ui w @ terms_warning key unset names cache\<rparr>)"
  by (simp add: resolve_terms_def selected_ids_typed with_terms_def terms_warning_def
        none_found_def say_def split: option.splits list.splits)

lemma publish_self_hosted_typed:
  assumes "wordpress_config w = Some cfg" "\<not> is_wpcom cfg"
  shows "publish_self_hosted srv (typed_session cats tgs) cfg status categories tags post_data w =
     after_post 201 ''id'' ''link'' ''WordPress'' status cfg
       (srv (sent w)
          (self_hosted_post w cfg
             (with_terms ''tags'' tags tgs (with_terms ''categories'' categories cats post_data))),
        w\<lparr>ui := ui w @ terms_warning ''categories'' categories_unset categories cats
                     @ terms_warning ''tags'' tags_unset tags tgs,
          sent := sent w @ [self_hosted_post w cfg
             (with_terms ''tags'' tags tgs (with_terms ''categories'' categories cats post_data))]\<rparr>)"
  using assms
  by (simp add: publish_self_hosted_def typed_session_def resolve_terms_typed get_api_url_def
      http_def self_hosted_post_def deref_def categories_unset_def tags_unset_def)

lemma after_post_world: "snd (after_post created ik lk platform status cfg (out, w)) = w"
  by (simp add: after_post_def split: outcome.splits sum.splits)

lemma after_post_created:
  assumes "status_code r = created" "decoded r = Inr info"
    "subscript info ik = Inr i" "subscript info lk = Inr l"
  shows "after_post created ik lk platform status cfg (Returned r, w) =
     (Inr (PublishSuccess \<lparr>post_id = i, post_url = l, edit_site = site_url cfg,
             message = ''Post published successfully to '' @ platform
                         @ '' (Status: '' @ status @ '')''\<rparr>), w)"
  using assms by (simp add: after_post_def response_json_def)

lemma publish_wpcom_request:
  assumes "wordpress_config w = Some cfg" "is_wpcom cfg" "api_base cfg = Some base"
  shows "publish_wpcom srv cfg status categories tags
           (initial_post_data md title content status fid) w =
     after_post 200 ''ID'' ''URL'' ''WordPress.com'' status cfg
       (srv (sent w)
          (post_request (base @ ''/posts/new'') (deref w (headers cfg))
             (hosted_post_data md title content status tags fid)),
        w\<lparr>ui := ui w @ (case categories of Some (c # cs) \<Rightarrow> [categories_unsupported] | _ \<Rightarrow> []),
          sent := sent w @ [post_request (base @ ''/posts/new'') (deref w (headers cfg))
             (hosted_post_data md title content status tags fid)]\<rparr>)"
  using assms
  by (simp add: publish_wpcom_def get_api_url_def http_def say_def deref_def
        hosted_post_data_def split: option.splits list.splits)

text \<open>
  C4. The comprehension that resolves names for a self-hosted post matches
  case-insensitively and on the whole name: on a cache of \<open>{id, name}\<close> entries it yields
  the identifiers that \<open>resolveTermIds\<close> describes, one per matching entry of the cache,
  so without repetition when the identifiers of the cache are distinct. Resolving
  \<open>["News", "news"]\<close> against \<open>[{id: 3, name: "News"}]\<close> yields \<open>[3]\<close>, and resolving
  \<open>["Unknown"]\<close> yields \<open>[]\<close>.
\<close>

theorem term_resolution_case_insensitive_once:
  "selected_ids (typed_terms [(3, ''News'')]) [''News'', ''news''] = Inr [JInt 3]
   \<and> selected_ids (typed_terms [(3, ''News'')]) [''Unknown''] = Inr []
   \<and> selected_ids (typed_terms cache) names = Inr (map JInt (resolveTermIds names cache))
   \<and> (distinct (map fst cache) \<longrightarrow> distinct (resolveTermIds names cache))"
proof (intro conjI impI)
  show "selected_ids (typed_terms [(3, ''News'')]) [''News'', ''news''] = Inr [JInt 3]"
    by code_simp
  show "selected_ids (typed_terms [(3, ''News'')]) [''Unknown''] = Inr []"
    by code_simp
  show "selected_ids (typed_terms cache) names = Inr (map JInt (resolveTermIds names cache))"
    by (rule selected_ids_typed)
  show "distinct (resolveTermIds names cache)" if "distinct (map fst cache)"
    using that by (simp add: resolveTermIds_def distinct_map_filter)
qed

theorem term_resolution_case_insensitive_once_witness:
  "distinct (map fst [(3 :: int, ''News''), (5, ''Tech'')])
   \<and> distinct (resolveTermIds [''news'', ''TECH'', ''Tec''] [(3, ''News''), (5, ''Tech'')])
   \<and> selected_ids (typed_terms [(3, ''News''), (5, ''Tech'')]) [''news'', ''TECH'', ''Tec'']
       = Inr [JInt 3, JInt 5]"
proof -
  have r: "resolveTermIds [''news'', ''TECH'', ''Tec''] [(3, ''News''), (5, ''Tech'')] = [3, 5]"
    by code_simp
  from term_resolution_case_insensitive_once
         [of "[(3, ''News''), (5, ''Tech'')]" "[''news'', ''TECH'', ''Tec'']"]
  show ?thesis by (simp add: r)
qed

section \<open>Publishing to a self-hosted site\<close>

lemma getitem_initial_categories:
  "getitem (initial_post_data md title content status fid) ''categories'' = None"
  by (simp add: initial_post_data_def getitem_setitem getitem_def Let_def)

lemma getitem_with_terms:
  "getitem (with_terms key names cache post_data) k =
     (if k = key \<and> (\<exists>ns. names = Some ns \<and> ns \<noteq> [] \<and> resolveTermIds ns cache \<noteq> [])
      then Some (JArr (map JInt (resolveTermIds (the names) cache)))
      else getitem post_data k)"
  by (auto simp: with_terms_def getitem_setitem split: option.splits list.splits)

lemma publish_typed:
  assumes "wordpress_config w = Some cfg" "\<not> is_wpcom cfg"
  shows "publish_to_wordpress srv md (typed_session cats tgs) title content status categories tags fid w =
     (case after_post 201 ''id'' ''link'' ''WordPress'' status cfg
             (srv (sent w) (self_hosted_post w cfg
                (self_hosted_post_data md title content status categories cats tags tgs fid)),
              w\<lparr>ui := ui w @ terms_warning ''categories'' categories_unset categories cats
                           @ terms_warning ''tags'' tags_unset tags tgs,
                sent := sent w @ [self_hosted_post w cfg
                  (self_hosted_post_data md title content status categories cats tags tgs fid)]\<rparr>) of
        (Inl e, w') \<Rightarrow> (publish_handlers e, w')
      | (Inr r, w') \<Rightarrow> (r, w'))"
  using assms
  by (simp add: self_hosted_post_data_def publish_to_wordpress_def Let_def
      publish_self_hosted_typed)

lemma publish_typed_world:
  assumes "wordpress_config w = Some cfg" "\<not> is_wpcom cfg"
  shows "snd (publish_to_wordpress srv md (typed_session cats tgs) title content status categories tags fid w) =
     w\<lparr>ui := ui w @ terms_warning ''categories'' categories_unset categories cats
                  @ terms_warning ''tags'' tags_unset tags tgs,
       sent := sent w @ [self_hosted_post w cfg
         (self_hosted_post_data md title content status categories cats tags tgs fid)]\<rparr>"
proof -
  have "snd (case x of (Inl e, w') \<Rightarrow> (publish_handlers e, w') | (Inr r, w') \<Rightarrow> (r, w')) = snd x"
    for x :: "(exn + publish_result) \<times> world"
    by (simp split: prod.splits sum.splits)
  then show ?thesis
    by (simp add: publish_typed [OF assms] after_post_world)
qed

lemma publish_typed_created:
  assumes "wordpress_config w = Some cfg" "\<not> is_wpcom cfg"
    and "srv (sent w) (self_hosted_post w cfg
           (self_hosted_post_data md title content status categories cats tags tgs fid)) = Returned r"
    and "status_code r = 201" "decoded r = Inr info"
    and "subscript info ''id'' = Inr i" "subscript info ''link'' = Inr l"
  shows "fst (publish_to_wordpress srv md (typed_session cats tgs) title content status categories tags fid w) =
     PublishSuccess \<lparr>post_id = i, post_url = l, edit_site = site_url cfg,
        message = ''Post published successfully to WordPress (Status: '' @ status @ '')''\<rparr>"
  using assms(3-)
  by (simp add: publish_typed [OF assms(1,2)] after_post_created)

lemma categories_warning:
  "names \<noteq> [] \<Longrightarrow>
   terms_warning ''categories'' categories_unset (Some names) cats =
     (if resolveTermIds names cats = []
      then [none_found ''categories'' categories_unset names] else [])"
  by (simp add: terms_warning_def split: list.splits)

lemma getitem_categories:
  "names \<noteq> [] \<Longrightarrow>
   getitem (self_hosted_post_data md title content status (Some names) cats tags tgs fid)
     ''categories''
   = (if resolveTermIds names cats = [] then None
      else Some (JArr (map JInt (resolveTermIds names cats))))"
  by (simp add: self_hosted_post_data_def getitem_with_terms getitem_initial_categories)

lemma tags_warning:
  "names \<noteq> [] \<Longrightarrow>
   terms_warning ''tags'' tags_unset (Some names) tgs =
     (if resolveTermIds names tgs = []
      then [none_found ''tags'' tags_unset names] else [])"
  by (simp add: terms_warning_def split: list.splits)

lemma getitem_tags:
  "names \<noteq> [] \<Longrightarrow>
   getitem (self_hosted_post_data md title content status categories cats (Some names) tgs fid)
     ''tags''
   = (if resolveTermIds names tgs = [] then None
      else Some (JArr (map JInt (resolveTermIds names tgs))))"
  by (simp add: self_hosted_post_data_def getitem_with_terms initial_post_data_def
      getitem_setitem Let_def)
     (simp add: getitem_def)

lemma example_world_ui: "ui example_world = []"
  by code_simp

lemma example_world_valid: "valid_headers example_world"
  by (simp add: valid_headers_def example_world_config example_world_store example_config_def)

lemma example_headers:
  "deref example_world (headers example_config)
     = [(''Content-Type'', ''application/json''), (''Authorization'', ''Basic YWRtaW46YXBwLXB3'')]"
  by (simp add: deref_def example_world_store example_config_def)

lemma resolve_news_unknown: "resolveTermIds [''News'', ''Unknown''] [(3, ''News'')] = [3]"
  by code_simp

lemma resolve_unknown: "resolveTermIds [''Unknown''] [(3, ''News'')] = []"
  by code_simp

text \<open>
  C5, as amended. For a self-hosted site whose session term lists hold \<open>{id, name}\<close>
  entries, and for every list of category names and of tag names: the post request is
  issued, with a payload whose \<open>categories\<close> (or \<open>tags\<close>) field holds the identifiers
  of the matching cache entries only, and does not exist when no requested name matches;
  the publication succeeds whenever the site answers that request with 201 and a post
  record; and the only report is, per list, one warning that lists the requested names,
  displayed when none of them matched. Nothing is displayed about unmatched names when
  at least one name of the list matched.
\<close>

theorem unmatched_names_dropped_reported_when_none_match:
  assumes "wordpress_config w = Some cfg" and "\<not> is_wpcom cfg"
  shows "sent (snd (publish_to_wordpress srv md (typed_session cats tgs) title content status
                      categories tags fid w))
           = sent w @ [self_hosted_post w cfg
                (self_hosted_post_data md title content status categories cats tags tgs fid)]
       \<and> ui (snd (publish_to_wordpress srv md (typed_session cats tgs) title content status
                     categories tags fid w))
           = ui w @ terms_warning ''categories'' categories_unset categories cats
                  @ terms_warning ''tags'' tags_unset tags tgs
       \<and> (\<forall>names. categories = Some names \<and> names \<noteq> [] \<longrightarrow>
             getitem (self_hosted_post_data md title content status categories cats tags tgs fid)
                 ''categories''
               = (if resolveTermIds names cats = [] then None
                  else Some (JArr (map JInt (resolveTermIds names cats))))
             \<and> terms_warning ''categories'' categories_unset categories cats
               = (if resolveTermIds names cats = []
                  then [none_found ''categories'' categories_unset names] else []))
       \<and> (\<forall>names. tags = Some names \<and> names \<noteq> [] \<longrightarrow>
             getitem (self_hosted_post_data md title content status categories cats tags tgs fid)
                 ''tags''
               = (if resolveTermIds names tgs = [] then None
                  else Some (JArr (map JInt (resolveTermIds names tgs))))
             \<and> terms_warning ''tags'' tags_unset tags tgs
               = (if resolveTermIds names tgs = []
                  then [none_found ''tags'' tags_unset names] else []))
       \<and> (\<forall>r info i l.
             srv (sent w) (self_hosted_post w cfg
                (self_hosted_post_data md title content status categories cats tags tgs fid))
               = Returned r
             \<and> status_code r = 201 \<and> decoded r = Inr info
             \<and> subscript info ''id'' = Inr i \<and> subscript info ''link'' = Inr l
             \<longrightarrow> fst (publish_to_wordpress srv md (typed_session cats tgs) title content status
                        categories tags fid w)
                 = PublishSuccess \<lparr>post_id = i, post_url = l, edit_site = site_url cfg,
                     message = ''Post published successfully to WordPress (Status: ''
                                 @ status @ '')''\<rparr>)"
  using assms
  by (auto simp: publish_typed_world categories_warning tags_warning getitem_categories
      getitem_tags publish_typed_created)

theorem unmatched_names_dropped_reported_when_none_match_witness:
  "wordpress_config example_world = Some example_config
   \<and> \<not> is_wpcom example_config
   \<and> getitem (self_hosted_post_data plain_markdown ''Hello'' ''Body'' ''draft''
                (Some [''News'', ''Unknown'']) [(3, ''News'')] (Some [''misc'']) [] JNull)
         ''categories''
       = Some (JArr [JInt 3])
   \<and> getitem (self_hosted_post_data plain_markdown ''Hello'' ''Body'' ''draft''
                (Some [''News'', ''Unknown'']) [(3, ''News'')] (Some [''misc'']) [] JNull)
         ''tags''
       = None
   \<and> ui (snd (publish_to_wordpress server_created plain_markdown (typed_session [(3, ''News'')] [])
                 ''Hello'' ''Body'' ''draft'' (Some [''News'', ''Unknown'']) (Some [''misc'']) JNull
                 example_world))
       = [none_found ''tags'' tags_unset [''misc'']]
   \<and> fst (publish_to_wordpress server_created plain_markdown (typed_session [(3, ''News'')] [])
             ''Hello'' ''Body'' ''draft'' (Some [''News'', ''Unknown'']) (Some [''misc'']) JNull
             example_world)
       = PublishSuccess \<lparr>post_id = JInt 7, post_url = JStr ''https://example.com/?p=7'',
           edit_site = ''https://example.com'',
           message = ''Post published successfully to WordPress (Status: draft)''\<rparr>"
proof -
  note t = unmatched_names_dropped_reported_when_none_match
      [where w = example_world and cfg = example_config
         and categories = "Some [''News'', ''Unknown'']" and tags = "Some [''misc'']"
         and srv = server_created and md = plain_markdown and cats = "[(3, ''News'')]"
         and tgs = "[]" and fid = JNull and title = "''Hello''"
         and content = "''Body''" and status = "''draft''",
       OF example_world_config example_config_self_hosted]
  have m: "resolveTermIds [''misc''] [] = []"
    by (simp add: resolveTermIds_def)
  have s: "site_url example_config = ''https://example.com''"
    by (simp add: example_config_def)
  from t show ?thesis
    by (simp add: example_world_config example_config_self_hosted resolve_news_unknown m
        example_world_ui server_created_def reply_def s)
qed

text \<open>
  C5 as stated fails: with the categories \<open>["News", "Unknown"]\<close> and the cache
  \<open>[{id: 3, name: "News"}]\<close>, the name "Unknown" has no match, the post is published with
  \<open>categories: [3]\<close>, and nothing at all is displayed.
\<close>

theorem partial_match_counterexample:
  "resolveTermIds [''Unknown''] [(3, ''News'')] = []
   \<and> getitem (self_hosted_post_data plain_markdown ''Hello'' ''Body'' ''draft''
                (Some [''News'', ''Unknown'']) [(3, ''News'')] None [] JNull) ''categories''
       = Some (JArr [JInt 3])
   \<and> fst (publish_to_wordpress server_created plain_markdown (typed_session [(3, ''News'')] [])
             ''Hello'' ''Body'' ''draft'' (Some [''News'', ''Unknown'']) None JNull example_world)
       = PublishSuccess \<lparr>post_id = JInt 7, post_url = JStr ''https://example.com/?p=7'',
           edit_site = ''https://example.com'',
           message = ''Post published successfully to WordPress (Status: draft)''\<rparr>
   \<and> ui (snd (publish_to_wordpress server_created plain_markdown (typed_session [(3, ''News'')] [])
                 ''Hello'' ''Body'' ''draft'' (Some [''News'', ''Unknown'']) None JNull example_world))
       = []"
proof -
  have a: "getitem (self_hosted_post_data plain_markdown ''Hello'' ''Body'' ''draft''
                (Some [''News'', ''Unknown'']) [(3, ''News'')] None [] JNull) ''categories''
       = Some (JArr [JInt 3])"
    by (simp add: getitem_categories resolve_news_unknown)
  have b: "fst (publish_to_wordpress server_created plain_markdown (typed_session [(3, ''News'')] [])
             ''Hello'' ''Body'' ''draft'' (Some [''News'', ''Unknown'']) None JNull example_world)
       = PublishSuccess \<lparr>post_id = JInt 7, post_url = JStr ''https://example.com/?p=7'',
           edit_site = ''https://example.com'',
           message = ''Post published successfully to WordPress (Status: draft)''\<rparr>"
    using publish_typed_created [OF example_world_config example_config_self_hosted,
        where srv = server_created and info = "JObj [(''id'', JInt 7), (''link'', JStr ''https://example.com/?p=7'')]"
          and r = "\<lparr>status_code = 201, text = ''{}'', decoded = Inr (JObj [(''id'', JInt 7), (''link'', JStr ''https://example.com/?p=7'')])\<rparr>"
          and i = "JInt 7" and l = "JStr ''https://example.com/?p=7''" and status = "''draft''"]
    by (simp add: server_created_def reply_def example_config_def)
  have c: "ui (snd (publish_to_wordpress server_created plain_markdown (typed_session [(3, ''News'')] [])
                 ''Hello'' ''Body'' ''draft'' (Some [''News'', ''Unknown'']) None JNull example_world))
       = []"
    by (simp add: publish_typed_world [OF example_world_config example_config_self_hosted]
        categories_warning resolve_news_unknown terms_warning_def example_world_ui)
  from a b c resolve_unknown show ?thesis by simp
qed

section \<open>Publishing to WordPress.com\<close>

lemma getitem_hosted_categories:
  "getitem (hosted_post_data md title content status tags fid) ''categories'' = None"
  by (simp add: hosted_post_data_def getitem_setitem getitem_initial_categories
      split: option.splits list.splits)

lemma getitem_hosted_tags:
  "ts \<noteq> [] \<Longrightarrow>
   getitem (hosted_post_data md title content status (Some ts) fid) ''tags''
     = Some (JStr (join '','' ts))"
  by (simp add: hosted_post_data_def getitem_setitem split: list.splits)

lemma publish_hosted:
  assumes "wordpress_config w = Some cfg" "is_wpcom cfg" "api_base cfg = Some base"
  shows "snd (publish_to_wordpress srv md ss title content status categories tags fid w) =
     w\<lparr>ui := ui w @ (case categories of Some (c # cs) \<Rightarrow> [categories_unsupported] | _ \<Rightarrow> []),
       sent := sent w @ [post_request (base @ ''/posts/new'') (deref w (headers cfg))
          (hosted_post_data md title content status tags fid)]\<rparr>"
proof -
  have "snd (case x of (Inl e, w') \<Rightarrow> (publish_handlers e, w') | (Inr r, w') \<Rightarrow> (r, w')) = snd x"
    for x :: "(exn + publish_result) \<times> world"
    by (simp split: prod.splits sum.splits)
  with assms show ?thesis
    by (simp add: publish_to_wordpress_def Let_def publish_wpcom_request after_post_world)
qed

text \<open>
  C6. A publication to a WordPress.com site sends one request, to \<open>/posts/new\<close>, and for
  every \<open>categories\<close> argument and every session cache its payload has no \<open>categories\<close>
  field; tags, when a non-empty list is given, are sent as one string, the names joined
  by commas; and when category names are given the caller is warned that categories are
  not supported.
\<close>

theorem hosted_post_never_carries_categories:
  assumes "wordpress_config w = Some cfg" and "is_wpcom cfg" and "api_base cfg = Some base"
  shows "sent (snd (publish_to_wordpress srv md ss title content status categories tags fid w))
           = sent w @ [post_request (base @ ''/posts/new'') (deref w (headers cfg))
                         (hosted_post_data md title content status tags fid)]
       \<and> getitem (hosted_post_data md title content status tags fid) ''categories'' = None
       \<and> (\<forall>ts. tags = Some ts \<and> ts \<noteq> [] \<longrightarrow>
             getitem (hosted_post_data md title content status tags fid) ''tags''
               = Some (JStr (join '','' ts)))
       \<and> (\<forall>cs. categories = Some cs \<and> cs \<noteq> [] \<longrightarrow>
             ui (snd (publish_to_wordpress srv md ss title content status categories tags fid w))
               = ui w @ [categories_unsupported])"
  using assms
  by (auto simp: publish_hosted getitem_hosted_categories getitem_hosted_tags split: list.splits)

theorem hosted_post_never_carries_categories_witness:
  "wordpress_config hosted_world = Some hosted_config
   \<and> is_wpcom hosted_config
   \<and> api_base hosted_config = Some ''https://public-api.wordpress.com/rest/v1.1/sites/myblog.wordpress.com''
   \<and> getitem (hosted_post_data plain_markdown ''Hello'' ''Body'' ''draft'' (Some [''ai'', ''web'']) JNull)
        ''categories'' = None
   \<and> getitem (hosted_post_data plain_markdown ''Hello'' ''Body'' ''draft'' (Some [''ai'', ''web'']) JNull)
        ''tags'' = Some (JStr ''ai,web'')
   \<and> ui (snd (publish_to_wordpress server_created plain_markdown (typed_session [(9, ''Tech'')] [])
                 ''Hello'' ''Body'' ''draft'' (Some [''Tech'']) (Some [''ai'', ''web'']) JNull
                 hosted_world))
       = [categories_unsupported]"
proof -
  have c: "wordpress_config hosted_world = Some hosted_config"
    by (simp add: hosted_world_def hosted_config_def setup_wordpress_def init_world_def alloc_def)
       code_simp
  have u: "ui hosted_world = []"
    by code_simp
  have i: "is_wpcom hosted_config"
    and b: "api_base hosted_config = Some ''https://public-api.wordpress.com/rest/v1.1/sites/myblog.wordpress.com''"
    by (simp_all add: hosted_config_def)
  from hosted_post_never_carries_categories [OF c i b,
      where categories = "Some [''Tech'']" and tags = "Some [''ai'', ''web'']"
        and srv = server_created and md = plain_markdown and title = "''Hello''"
        and content = "''Body''" and status = "''draft''" and fid = JNull
        and ss = "typed_session [(9, ''Tech'')] []"]
  show ?thesis
    using c i b u by simp
qed

section \<open>The publish button: upload, then post\<close>

lemma upload_result:
  assumes "wordpress_config w = Some cfg" "\<not> is_wpcom cfg"
  shows "fst (upload_image_to_wordpress srv image_data filename mime_type w) =
     (case fst (after_upload filename
                  (srv (sent w) (upload_request w cfg image_data filename mime_type), w)) of
        Inl e \<Rightarrow> upload_handlers e
      | Inr r \<Rightarrow> r)"
  using assms
  by (simp add: upload_image_to_wordpress_def upload_try_request after_upload_def
      split: outcome.splits sum.splits prod.splits)

lemma upload_created:
  assumes "wordpress_config w = Some cfg" "\<not> is_wpcom cfg"
    and "srv (sent w) (upload_request w cfg image_data filename mime_type) = Returned r"
    and "status_code r = 201" "decoded r = Inr info"
    and "subscript info ''id'' = Inr i" "subscript info ''source_url'' = Inr u"
  shows "fst (upload_image_to_wordpress srv image_data filename mime_type w) =
     UploadSuccess i u (''Image '' @ sq @ filename @ sq @ '' uploaded successfully to media library.'')"
  using assms(3-)
  by (simp add: upload_result [OF assms(1,2)] after_upload_def response_json_def)

lemma upload_rejected:
  assumes "wordpress_config w = Some cfg" "\<not> is_wpcom cfg"
    and "srv (sent w) (upload_request w cfg image_data filename mime_type) = Returned r"
    and "status_code r \<noteq> 201"
  shows "fst (upload_image_to_wordpress srv image_data filename mime_type w) =
     UploadFailure (''Image upload failed: '' @ str_int (status_code r) @ '' - '' @ text r)"
  using assms(3-)
  by (simp add: upload_result [OF assms(1,2)] after_upload_def)

lemma upload_featured_success:
  assumes "opt \<noteq> NoImage" "image_data \<noteq> []"
    and "fst (upload_image_to_wordpress srv image_data filename mime_type w) = UploadSuccess i u m"
  shows "upload_featured srv opt (Some image_data) filename mime_type w =
     (i, say (Success m) (snd (upload_image_to_wordpress srv image_data filename mime_type w)))"
  using assms
  by (cases "upload_image_to_wordpress srv image_data filename mime_type w")
     (simp add: upload_featured_def)

lemma upload_featured_failure:
  assumes "opt \<noteq> NoImage" "image_data \<noteq> []"
    and "fst (upload_image_to_wordpress srv image_data filename mime_type w) = UploadFailure e"
  shows "upload_featured srv opt (Some image_data) filename mime_type w =
     (JNull, say proceeding_without_image
               (say (Error (''Failed to upload featured image: '' @ e))
                  (snd (upload_image_to_wordpress srv image_data filename mime_type w))))"
  using assms
  by (cases "upload_image_to_wordpress srv image_data filename mime_type w")
     (simp add: upload_featured_def)

lemma clicked_world:
  assumes "upload_featured srv opt img filename mime_type w = (fid, w1)"
    and "wordpress_config w1 = Some cfg" "\<not> is_wpcom cfg"
  shows "sent (snd (publish_clicked srv md True (typed_session cats tgs) title content status
                      cs ts opt img filename mime_type w))
           = sent w1 @ [self_hosted_post w1 cfg
               (self_hosted_post_data md title content status (Some cs) cats (Some ts) tgs fid)]"
    and "set (ui w1) \<subseteq> set (ui (snd (publish_clicked srv md True (typed_session cats tgs) title
                      content status cs ts opt img filename mime_type w)))"
proof -
  let ?P = "publish_to_wordpress srv md (typed_session cats tgs) title content status
              (Some cs) (Some ts) fid w1"
  have c: "publish_clicked srv md True (typed_session cats tgs) title content status
             cs ts opt img filename mime_type w =
           (case ?P of
              (PublishSuccess p, w2) \<Rightarrow>
                (Some (PublishSuccess p),
                 say (Success ''Content published successfully to WordPress!'') w2)
            | (PublishFailure e, w2) \<Rightarrow>
                (Some (PublishFailure e), say (Error (''WordPress Publishing Error: '' @ e)) w2))"
    using assms(1) by (simp add: publish_clicked_def)
  have s: "sent (snd (publish_clicked srv md True (typed_session cats tgs) title content status
                      cs ts opt img filename mime_type w)) = sent (snd ?P)"
    unfolding c by (simp add: say_def split: prod.splits publish_result.splits)
  have u: "set (ui (snd ?P)) \<subseteq> set (ui (snd (publish_clicked srv md True (typed_session cats tgs)
                      title content status cs ts opt img filename mime_type w)))"
    unfolding c by (auto simp: say_def split: prod.splits publish_result.splits)
  show "sent (snd (publish_clicked srv md True (typed_session cats tgs) title content status
                      cs ts opt img filename mime_type w))
           = sent w1 @ [self_hosted_post w1 cfg
               (self_hosted_post_data md title content status (Some cs) cats (Some ts) tgs fid)]"
    by (simp add: s publish_typed_world [OF assms(2,3)])
  have "set (ui w1) \<subseteq> set (ui (snd ?P))"
    by (simp add: publish_typed_world [OF assms(2,3)])
  with u show "set (ui w1) \<subseteq> set (ui (snd (publish_clicked srv md True (typed_session cats tgs) title
                      content status cs ts opt img filename mime_type w)))"
    by blast
qed

lemma clicked_result:
  assumes "upload_featured srv opt img filename mime_type w = (fid, w1)"
    and "wordpress_config w1 = Some cfg" "\<not> is_wpcom cfg"
    and "srv (sent w1) (self_hosted_post w1 cfg
           (self_hosted_post_data md title content status (Some cs) cats (Some ts) tgs fid)) = Returned r"
    and "status_code r = 201" "decoded r = Inr info"
    and "subscript info ''id'' = Inr i" "subscript info ''link'' = Inr l"
  shows "fst (publish_clicked srv md True (typed_session cats tgs) title content status
                cs ts opt img filename mime_type w)
           = Some (PublishSuccess \<lparr>post_id = i, post_url = l, edit_site = site_url cfg,
                message = ''Post published successfully to WordPress (Status: '' @ status @ '')''\<rparr>)"
proof -
  have "fst (publish_to_wordpress srv md (typed_session cats tgs) title content status
               (Some cs) (Some ts) fid w1)
          = PublishSuccess \<lparr>post_id = i, post_url = l, edit_site = site_url cfg,
                message = ''Post published successfully to WordPress (Status: '' @ status @ '')''\<rparr>"
    using assms(2-) by (rule publish_typed_created)
  with assms(1) show ?thesis
    by (cases "publish_to_wordpress srv md (typed_session cats tgs) title content status
               (Some cs) (Some ts) fid w1")
       (simp add: publish_clicked_def)
qed

lemma getitem_featured_media:
  "getitem (self_hosted_post_data md title content status categories cats tags tgs fid)
     ''featured_media'' = (if truthy fid then Some fid else None)"
  by (simp add: self_hosted_post_data_def getitem_with_terms initial_post_data_def
      getitem_setitem Let_def)
     (simp add: getitem_def)

lemma post_after_say: "self_hosted_post (say e w) cfg post_data = self_hosted_post w cfg post_data"
  by (simp add: self_hosted_post_def deref_def say_def)

lemma post_after_upload:
  assumes "wordpress_config w = Some cfg" "valid_headers w"
  shows "self_hosted_post (w\<lparr>store := store w @ [hs], sent := rs\<rparr>) cfg post_data
         = self_hosted_post w cfg post_data"
  using assms
  by (simp add: self_hosted_post_def deref_def valid_headers_def nth_append)

lemma say_fields:
  "wordpress_config (say e w) = wordpress_config w" "sent (say e w) = sent w"
  "ui (say e w) = ui w @ [e]"
  by (simp_all add: say_def)

lemma upload_handlers_failure: "\<exists>m. upload_handlers e = UploadFailure m"
  by (cases e) simp_all

lemma upload_malformed:
  assumes "wordpress_config w = Some cfg" "\<not> is_wpcom cfg"
    and "srv (sent w) (upload_request w cfg image_data filename mime_type) = Returned r"
    and "status_code r = 201"
    and "(\<exists>m. decoded r = Inl m)
         \<or> (\<exists>info e. decoded r = Inr info
               \<and> (subscript info ''id'' = Inl e \<or> subscript info ''source_url'' = Inl e))"
  shows "\<exists>e. fst (upload_image_to_wordpress srv image_data filename mime_type w) = UploadFailure e"
proof -
  have "\<exists>x. fst (after_upload filename (Returned r, w)) = Inl x"
    using assms(4,5)
    by (auto simp: after_upload_def response_json_def split: sum.splits)
  then obtain x where "fst (after_upload filename (Returned r, w)) = Inl x" ..
  then have "fst (upload_image_to_wordpress srv image_data filename mime_type w) = upload_handlers x"
    using assms(3) by (simp add: upload_result [OF assms(1,2)])
  with upload_handlers_failure [of x] show ?thesis by auto
qed

lemma clicked_after_failure:
  assumes "wordpress_config w = Some cfg" and "\<not> is_wpcom cfg" and "valid_headers w"
    and "opt \<noteq> NoImage" and "image_data \<noteq> []"
    and "fst (upload_image_to_wordpress srv image_data filename mime_type w) = UploadFailure e"
  shows "sent (snd (publish_clicked srv md True (typed_session cats tgs) title content status
                       cs ts opt (Some image_data) filename mime_type w))
            = sent w @ [upload_request w cfg image_data filename mime_type,
                        self_hosted_post w cfg
                          (self_hosted_post_data md title content status (Some cs) cats (Some ts) tgs JNull)]
          \<and> getitem (self_hosted_post_data md title content status (Some cs) cats (Some ts) tgs JNull)
                ''featured_media'' = None
          \<and> proceeding_without_image
                \<in> set (ui (snd (publish_clicked srv md True (typed_session cats tgs) title content
                                  status cs ts opt (Some image_data) filename mime_type w)))
          \<and> (\<forall>r2 info2 i2 l2.
                srv (sent w @ [upload_request w cfg image_data filename mime_type])
                    (self_hosted_post w cfg
                       (self_hosted_post_data md title content status (Some cs) cats (Some ts) tgs JNull))
                  = Returned r2
                \<and> status_code r2 = 201 \<and> decoded r2 = Inr info2
                \<and> subscript info2 ''id'' = Inr i2 \<and> subscript info2 ''link'' = Inr l2
                \<longrightarrow> fst (publish_clicked srv md True (typed_session cats tgs) title content status
                           cs ts opt (Some image_data) filename mime_type w)
                    = Some (PublishSuccess \<lparr>post_id = i2, post_url = l2, edit_site = site_url cfg,
                        message = ''Post published successfully to WordPress (Status: ''
                                    @ status @ '')''\<rparr>))"
proof (intro conjI)
  define up where "up = snd (upload_image_to_wordpress srv image_data filename mime_type w)"
  have up: "up = w\<lparr>store := store w @ [upload_headers w cfg filename mime_type],
                   sent := sent w @ [upload_request w cfg image_data filename mime_type]\<rparr>"
    unfolding up_def using assms(1,2) by (rule upload_world)
  have up_cfg: "wordpress_config up = Some cfg"
    and up_sent: "sent up = sent w @ [upload_request w cfg image_data filename mime_type]"
    using assms(1) by (simp_all add: up)
  have up_post: "self_hosted_post up cfg pd = self_hosted_post w cfg pd" for pd
    unfolding up using assms(1,3) by (rule post_after_upload)
  define w1 where "w1 = say proceeding_without_image
                          (say (Error (''Failed to upload featured image: '' @ e)) up)"
  from assms(4,5,6)
  have f: "upload_featured srv opt (Some image_data) filename mime_type w = (JNull, w1)"
    unfolding up_def w1_def by (rule upload_featured_failure)
  have c: "wordpress_config w1 = Some cfg"
    and s1: "sent w1 = sent w @ [upload_request w cfg image_data filename mime_type]"
    and p1: "self_hosted_post w1 cfg pd = self_hosted_post w cfg pd" for pd
    by (simp_all add: w1_def say_fields up_cfg up_sent post_after_say up_post)
  show "sent (snd (publish_clicked srv md True (typed_session cats tgs) title content status
                       cs ts opt (Some image_data) filename mime_type w))
            = sent w @ [upload_request w cfg image_data filename mime_type,
                        self_hosted_post w cfg
                          (self_hosted_post_data md title content status (Some cs) cats (Some ts) tgs JNull)]"
    by (simp add: clicked_world(1) [OF f c assms(2)] s1 p1)
  show "getitem (self_hosted_post_data md title content status (Some cs) cats (Some ts) tgs JNull)
                ''featured_media'' = None"
    by (simp add: getitem_featured_media)
  have "proceeding_without_image \<in> set (ui w1)"
    by (simp add: w1_def say_fields)
  with clicked_world(2) [OF f c assms(2)]
  show "proceeding_without_image
                \<in> set (ui (snd (publish_clicked srv md True (typed_session cats tgs) title content
                                  status cs ts opt (Some image_data) filename mime_type w)))"
    by blast
  show "\<forall>r2 info2 i2 l2.
                srv (sent w @ [upload_request w cfg image_data filename mime_type])
                    (self_hosted_post w cfg
                       (self_hosted_post_data md title content status (Some cs) cats (Some ts) tgs JNull))
                  = Returned r2
                \<and> status_code r2 = 201 \<and> decoded r2 = Inr info2
                \<and> subscript info2 ''id'' = Inr i2 \<and> subscript info2 ''link'' = Inr l2
                \<longrightarrow> fst (publish_clicked srv md True (typed_session cats tgs) title content status
                           cs ts opt (Some image_data) filename mime_type w)
                    = Some (PublishSuccess \<lparr>post_id = i2, post_url = l2, edit_site = site_url cfg,
                        message = ''Post published successfully to WordPress (Status: ''
                                    @ status @ '')''\<rparr>)"
    using clicked_result [OF f c assms(2), where md = md and title = title and content = content
        and status = status and cs = cs and cats = cats and ts = ts and tgs = tgs]
    by (simp add: s1 p1)
qed

lemma clicked_after_success:
  assumes "wordpress_config w = Some cfg" and "\<not> is_wpcom cfg" and "valid_headers w"
    and "opt \<noteq> NoImage" and "image_data \<noteq> []"
    and "fst (upload_image_to_wordpress srv image_data filename mime_type w) = UploadSuccess i u m"
  shows "sent (snd (publish_clicked srv md True (typed_session cats tgs) title content status
                       cs ts opt (Some image_data) filename mime_type w))
            = sent w @ [upload_request w cfg image_data filename mime_type,
                        self_hosted_post w cfg
                          (self_hosted_post_data md title content status (Some cs) cats (Some ts) tgs i)]"
proof -
  define up where "up = snd (upload_image_to_wordpress srv image_data filename mime_type w)"
  have up: "up = w\<lparr>store := store w @ [upload_headers w cfg filename mime_type],
                   sent := sent w @ [upload_request w cfg image_data filename mime_type]\<rparr>"
    unfolding up_def using assms(1,2) by (rule upload_world)
  have up_cfg: "wordpress_config up = Some cfg"
    and up_sent: "sent up = sent w @ [upload_request w cfg image_data filename mime_type]"
    using assms(1) by (simp_all add: up)
  have up_post: "self_hosted_post up cfg pd = self_hosted_post w cfg pd" for pd
    unfolding up using assms(1,3) by (rule post_after_upload)
  from assms(4,5,6)
  have f: "upload_featured srv opt (Some image_data) filename mime_type w = (i, say (Success m) up)"
    unfolding up_def by (rule upload_featured_success)
  have c: "wordpress_config (say (Success m) up) = Some cfg"
    by (simp add: say_fields up_cfg)
  show ?thesis
    by (simp add: clicked_world(1) [OF f c assms(2)] say_fields up_sent post_after_say up_post)
qed

text \<open>
  C7, as amended. In a publish attempt on a configured self-hosted site with a featured
  image, the term lists of the session holding \<open>{id, name}\<close> entries: when the upload is
  answered with 201 and a record that carries \<open>id\<close> and \<open>source_url\<close>, the post request
  that follows carries that identifier as \<open>featured_media\<close> if it is truthy and has no
  \<open>featured_media\<close> field if it is not (an identifier 0); when the upload is answered
  with any other status, or with 201 and a body that does not decode as JSON or lacks
  \<open>id\<close> or \<open>source_url\<close>, the post request is still sent, without a
  \<open>featured_media\<close> field, the warning that the publication proceeds without the image
  is displayed, and the publication succeeds whenever the site answers the post request
  with 201 and a post record.
\<close>

theorem media_upload_outcome_and_post:
  assumes "wordpress_config w = Some cfg" and "\<not> is_wpcom cfg" and "valid_headers w"
    and "opt \<noteq> NoImage" and "image_data \<noteq> []"
    and "srv (sent w) (upload_request w cfg image_data filename mime_type) = Returned r"
  shows "(status_code r = 201 \<and> decoded r = Inr info \<and> subscript info ''id'' = Inr i
            \<and> subscript info ''source_url'' = Inr u \<longrightarrow>
          sent (snd (publish_clicked srv md True (typed_session cats tgs) title content status
                       cs ts opt (Some image_data) filename mime_type w))
            = sent w @ [upload_request w cfg image_data filename mime_type,
                        self_hosted_post w cfg
                          (self_hosted_post_data md title content status (Some cs) cats (Some ts) tgs i)]
          \<and> getitem (self_hosted_post_data md title content status (Some cs) cats (Some ts) tgs i)
                ''featured_media'' = (if truthy i then Some i else None))
       \<and> (status_code r \<noteq> 201
            \<or> (\<exists>m. decoded r = Inl m)
            \<or> (\<exists>info e. decoded r = Inr info
                  \<and> (subscript info ''id'' = Inl e \<or> subscript info ''source_url'' = Inl e)) \<longrightarrow>
          sent (snd (publish_clicked srv md True (typed_session cats tgs) title content status
                       cs ts opt (Some image_data) filename mime_type w))
            = sent w @ [upload_request w cfg image_data filename mime_type,
                        self_hosted_post w cfg
                          (self_hosted_post_data md title content status (Some cs) cats (Some ts) tgs JNull)]
          \<and> getitem (self_hosted_post_data md title content status (Some cs) cats (Some ts) tgs JNull)
                ''featured_media'' = None
          \<and> proceeding_without_image
                \<in> set (ui (snd (publish_clicked srv md True (typed_session cats tgs) title content
                                  status cs ts opt (Some image_data) filename mime_type w)))
          \<and> (\<forall>r2 info2 i2 l2.
                srv (sent w @ [upload_request w cfg image_data filename mime_type])
                    (self_hosted_post w cfg
                       (self_hosted_post_data md title content status (Some cs) cats (Some ts) tgs JNull))
                  = Returned r2
                \<and> status_code r2 = 201 \<and> decoded r2 = Inr info2
                \<and> subscript info2 ''id'' = Inr i2 \<and> subscript info2 ''link'' = Inr l2
                \<longrightarrow> fst (publish_clicked srv md True (typed_session cats tgs) title content status
                           cs ts opt (Some image_data) filename mime_type w)
                    = Some (PublishSuccess \<lparr>post_id = i2, post_url = l2, edit_site = site_url cfg,
                        message = ''Post published successfully to WordPress (Status: ''
                                    @ status @ '')''\<rparr>)))"
proof (intro conjI impI)
  assume ok: "status_code r = 201 \<and> decoded r = Inr info \<and> subscript info ''id'' = Inr i
            \<and> subscript info ''source_url'' = Inr u"
  have "fst (upload_image_to_wordpress srv image_data filename mime_type w)
          = UploadSuccess i u (''Image '' @ sq @ filename @ sq
                                 @ '' uploaded successfully to media library.'')"
    using assms(1,2,6) ok by (simp add: upload_created)
  with assms(1-5)
  show "sent (snd (publish_clicked srv md True (typed_session cats tgs) title content status
                       cs ts opt (Some image_data) filename mime_type w))
            = sent w @ [upload_request w cfg image_data filename mime_type,
                        self_hosted_post w cfg
                          (self_hosted_post_data md title content status (Some cs) cats (Some ts) tgs i)]"
    by (rule clicked_after_success)
  show "getitem (self_hosted_post_data md title content status (Some cs) cats (Some ts) tgs i)
                ''featured_media'' = (if truthy i then Some i else None)"
    by (rule getitem_featured_media)
next
  assume bad: "status_code r \<noteq> 201
            \<or> (\<exists>m. decoded r = Inl m)
            \<or> (\<exists>info e. decoded r = Inr info
                  \<and> (subscript info ''id'' = Inl e \<or> subscript info ''source_url'' = Inl e))"
  have "\<exists>e. fst (upload_image_to_wordpress srv image_data filename mime_type w) = UploadFailure e"
  proof (cases "status_code r = 201")
    case True
    with bad assms(1,2,6) show ?thesis
      by (intro upload_malformed [where cfg = cfg and r = r]) simp_all
  next
    case False
    with assms(1,2,6) show ?thesis
      by (simp add: upload_rejected)
  qed
  then obtain e
    where e: "fst (upload_image_to_wordpress srv image_data filename mime_type w) = UploadFailure e" ..
  note f = clicked_after_failure [OF assms(1-5) e, where md = md and title = title
      and content = content and status = status and cs = cs and cats = cats and ts = ts
      and tgs = tgs]
  from f show "sent (snd (publish_clicked srv md True (typed_session cats tgs) title content status
                       cs ts opt (Some image_data) filename mime_type w))
            = sent w @ [upload_request w cfg image_data filename mime_type,
                        self_hosted_post w cfg
                          (self_hosted_post_data md title content status (Some cs) cats (Some ts) tgs JNull)]"
    by (rule conjunct1)
  from f show "getitem (self_hosted_post_data md title content status (Some cs) cats (Some ts) tgs JNull)
                ''featured_media'' = None"
    by (simp add: getitem_featured_media)
  from f show "proceeding_without_image
                \<in> set (ui (snd (publish_clicked srv md True (typed_session cats tgs) title content
                                  status cs ts opt (Some image_data) filename mime_type w)))"
    by (elim conjE)
  from f show "\<forall>r2 info2 i2 l2.
                srv (sent w @ [upload_request w cfg image_data filename mime_type])
                    (self_hosted_post w cfg
                       (self_hosted_post_data md title content status (Some cs) cats (Some ts) tgs JNull))
                  = Returned r2
                \<and> status_code r2 = 201 \<and> decoded r2 = Inr info2
                \<and> subscript info2 ''id'' = Inr i2 \<and> subscript info2 ''link'' = Inr l2
                \<longrightarrow> fst (publish_clicked srv md True (typed_session cats tgs) title content status
                           cs ts opt (Some image_data) filename mime_type w)
                    = Some (PublishSuccess \<lparr>post_id = i2, post_url = l2, edit_site = site_url cfg,
                        message = ''Post published successfully to WordPress (Status: ''
                                    @ status @ '')''\<rparr>)"
    by (elim conjE)
qed

theorem media_upload_outcome_and_post_witness:
  "wordpress_config example_world = Some example_config
   \<and> \<not> is_wpcom example_config \<and> valid_headers example_world
   \<and> ManualUpload \<noteq> NoImage \<and> ''PNG'' \<noteq> []
   \<and> server_media_ok (sent example_world)
        (upload_request example_world example_config ''PNG'' ''a.png'' ''image/png'')
       = Returned \<lparr>status_code = 201, text = ''{}'',
           decoded = Inr (JObj [(''id'', JInt 12), (''source_url'', JStr ''https://example.com/a.png'')])\<rparr>
   \<and> sent (snd (publish_clicked server_media_ok plain_markdown True (typed_session [] [])
             ''Hello'' ''Body'' ''draft'' [] [] ManualUpload (Some ''PNG'') ''a.png'' ''image/png''
             example_world))
       = [upload_request example_world example_config ''PNG'' ''a.png'' ''image/png'',
          self_hosted_post example_world example_config
            (self_hosted_post_data plain_markdown ''Hello'' ''Body'' ''draft'' (Some []) [] (Some []) [] (JInt 12))]
   \<and> getitem (self_hosted_post_data plain_markdown ''Hello'' ''Body'' ''draft'' (Some []) [] (Some []) [] (JInt 12)) ''featured_media'' = Some (JInt 12)
   \<and> getitem (self_hosted_post_data plain_markdown ''Hello'' ''Body'' ''draft'' (Some []) [] (Some []) [] JNull) ''featured_media'' = None
   \<and> server_media_fails (sent example_world)
        (upload_request example_world example_config ''PNG'' ''a.png'' ''image/png'')
       = Returned \<lparr>status_code = 500, text = ''boom'', decoded = Inl ''Expecting value''\<rparr>
   \<and> proceeding_without_image
       \<in> set (ui (snd (publish_clicked server_media_fails plain_markdown True (typed_session [] [])
             ''Hello'' ''Body'' ''draft'' [] [] ManualUpload (Some ''PNG'') ''a.png'' ''image/png''
             example_world)))
   \<and> fst (publish_clicked server_media_fails plain_markdown True (typed_session [] [])
             ''Hello'' ''Body'' ''draft'' [] [] ManualUpload (Some ''PNG'') ''a.png'' ''image/png''
             example_world)
       = Some (PublishSuccess \<lparr>post_id = JInt 7, post_url = JStr ''https://example.com/?p=7'',
           edit_site = ''https://example.com'',
           message = ''Post published successfully to WordPress (Status: draft)''\<rparr>)
   \<and> server_media_html (sent example_world)
        (upload_request example_world example_config ''PNG'' ''a.png'' ''image/png'')
       = Returned \<lparr>status_code = 201, text = ''<html></html>'', decoded = Inl ''Expecting value''\<rparr>
   \<and> proceeding_without_image
       \<in> set (ui (snd (publish_clicked server_media_html plain_markdown True (typed_session [] [])
             ''Hello'' ''Body'' ''draft'' [] [] ManualUpload (Some ''PNG'') ''a.png'' ''image/png''
             example_world)))
   \<and> fst (publish_clicked server_media_html plain_markdown True (typed_session [] [])
             ''Hello'' ''Body'' ''draft'' [] [] ManualUpload (Some ''PNG'') ''a.png'' ''image/png''
             example_world)
       = Some (PublishSuccess \<lparr>post_id = JInt 7, post_url = JStr ''https://example.com/?p=7'',
           edit_site = ''https://example.com'',
           message = ''Post published successfully to WordPress (Status: draft)''\<rparr>)
   \<and> server_media_without_url (sent example_world)
        (upload_request example_world example_config ''PNG'' ''a.png'' ''image/png'')
       = Returned \<lparr>status_code = 201, text = ''{}'', decoded = Inr (JObj [(''id'', JInt 12)])\<rparr>
   \<and> proceeding_without_image
       \<in> set (ui (snd (publish_clicked server_media_without_url plain_markdown True (typed_session [] [])
             ''Hello'' ''Body'' ''draft'' [] [] ManualUpload (Some ''PNG'') ''a.png'' ''image/png''
             example_world)))
   \<and> fst (publish_clicked server_media_without_url plain_markdown True (typed_session [] [])
             ''Hello'' ''Body'' ''draft'' [] [] ManualUpload (Some ''PNG'') ''a.png'' ''image/png''
             example_world)
       = Some (PublishSuccess \<lparr>post_id = JInt 7, post_url = JStr ''https://example.com/?p=7'',
           edit_site = ''https://example.com'',
           message = ''Post published successfully to WordPress (Status: draft)''\<rparr>)"
proof -
  have s: "site_url example_config = ''https://example.com''"
    by (simp add: example_config_def)
  have a_ok: "server_media_ok (sent example_world)
        (upload_request example_world example_config ''PNG'' ''a.png'' ''image/png'')
       = Returned \<lparr>status_code = 201, text = ''{}'',
           decoded = Inr (JObj [(''id'', JInt 12), (''source_url'', JStr ''https://example.com/a.png'')])\<rparr>"
    by (simp add: server_media_ok_def reply_def example_world_sent)
  have a_f5: "server_media_fails (sent example_world)
        (upload_request example_world example_config ''PNG'' ''a.png'' ''image/png'')
       = Returned \<lparr>status_code = 500, text = ''boom'', decoded = Inl ''Expecting value''\<rparr>"
    by (simp add: server_media_fails_def reply_def example_world_sent)
  have a_fh: "server_media_html (sent example_world)
        (upload_request example_world example_config ''PNG'' ''a.png'' ''image/png'')
       = Returned \<lparr>status_code = 201, text = ''<html></html>'', decoded = Inl ''Expecting value''\<rparr>"
    by (simp add: server_media_html_def reply_def example_world_sent)
  have a_fu: "server_media_without_url (sent example_world)
        (upload_request example_world example_config ''PNG'' ''a.png'' ''image/png'')
       = Returned \<lparr>status_code = 201, text = ''{}'', decoded = Inr (JObj [(''id'', JInt 12)])\<rparr>"
    by (simp add: server_media_without_url_def reply_def example_world_sent)
  have t_ok: "sent (snd (publish_clicked server_media_ok plain_markdown True (typed_session [] [])
             ''Hello'' ''Body'' ''draft'' [] [] ManualUpload (Some ''PNG'') ''a.png'' ''image/png''
             example_world))
       = sent example_world
          @ [upload_request example_world example_config ''PNG'' ''a.png'' ''image/png'',
          self_hosted_post example_world example_config
            (self_hosted_post_data plain_markdown ''Hello'' ''Body'' ''draft'' (Some []) [] (Some []) [] (JInt 12))]
     \<and> getitem (self_hosted_post_data plain_markdown ''Hello'' ''Body'' ''draft'' (Some []) [] (Some []) [] (JInt 12)) ''featured_media'' = (if truthy (JInt 12) then Some (JInt 12) else None)"
    by (rule media_upload_outcome_and_post
          [where w = example_world and cfg = example_config and srv = server_media_ok
             and image_data = "''PNG''" and filename = "''a.png''" and mime_type = "''image/png''"
             and r = "\<lparr>status_code = 201, text = ''{}'',
           decoded = Inr (JObj [(''id'', JInt 12), (''source_url'', JStr ''https://example.com/a.png'')])\<rparr>"
             and info = "JObj [(''id'', JInt 12), (''source_url'', JStr ''https://example.com/a.png'')]"
             and u = "JStr ''https://example.com/a.png''",
           OF example_world_config example_config_self_hosted example_world_valid _ _ a_ok,
           THEN conjunct1, THEN mp])
       simp_all
  have p_f5: "server_media_fails
             (sent example_world @ [upload_request example_world example_config ''PNG'' ''a.png'' ''image/png''])
             rq
           = Returned \<lparr>status_code = 201, text = ''{}'',
               decoded = Inr (JObj [(''id'', JInt 7), (''link'', JStr ''https://example.com/?p=7'')])\<rparr>"
    for rq
    by (simp add: server_media_fails_def reply_def)
  note t_f5 = media_upload_outcome_and_post
          [where w = example_world and cfg = example_config and srv = server_media_fails
             and image_data = "''PNG''" and filename = "''a.png''" and mime_type = "''image/png''"
             and md = plain_markdown and cats = "[]" and tgs = "[]" and cs = "[]" and ts = "[]"
             and title = "''Hello''" and content = "''Body''" and status = "''draft''"
             and opt = ManualUpload
             and r = "\<lparr>status_code = 500, text = ''boom'', decoded = Inl ''Expecting value''\<rparr>",
           OF example_world_config example_config_self_hosted example_world_valid _ _ a_f5,
           THEN conjunct2, THEN mp]
  have c_f5: "proceeding_without_image
       \<in> set (ui (snd (publish_clicked server_media_fails plain_markdown True (typed_session [] [])
             ''Hello'' ''Body'' ''draft'' [] [] ManualUpload (Some ''PNG'') ''a.png'' ''image/png''
             example_world)))
   \<and> fst (publish_clicked server_media_fails plain_markdown True (typed_session [] [])
             ''Hello'' ''Body'' ''draft'' [] [] ManualUpload (Some ''PNG'') ''a.png'' ''image/png''
             example_world)
       = Some (PublishSuccess \<lparr>post_id = JInt 7, post_url = JStr ''https://example.com/?p=7'',
           edit_site = ''https://example.com'',
           message = ''Post published successfully to WordPress (Status: draft)''\<rparr>)"
    using t_f5 by (simp add: p_f5 s)
  have p_fh: "server_media_html
             (sent example_world @ [upload_request example_world example_config ''PNG'' ''a.png'' ''image/png''])
             rq
           = Returned \<lparr>status_code = 201, text = ''{}'',
               decoded = Inr (JObj [(''id'', JInt 7), (''link'', JStr ''https://example.com/?p=7'')])\<rparr>"
    for rq
    by (simp add: server_media_html_def reply_def)
  note t_fh = media_upload_outcome_and_post
          [where w = example_world and cfg = example_config and srv = server_media_html
             and image_data = "''PNG''" and filename = "''a.png''" and mime_type = "''image/png''"
             and md = plain_markdown and cats = "[]" and tgs = "[]" and cs = "[]" and ts = "[]"
             and title = "''Hello''" and content = "''Body''" and status = "''draft''"
             and opt = ManualUpload
             and r = "\<lparr>status_code = 201, text = ''<html></html>'', decoded = Inl ''Expecting value''\<rparr>",
           OF example_world_config example_config_self_hosted example_world_valid _ _ a_fh,
           THEN conjunct2, THEN mp]
  have c_fh: "proceeding_without_image
       \<in> set (ui (snd (publish_clicked server_media_html plain_markdown True (typed_session [] [])
             ''Hello'' ''Body'' ''draft'' [] [] ManualUpload (Some ''PNG'') ''a.png'' ''image/png''
             example_world)))
   \<and> fst (publish_clicked server_media_html plain_markdown True (typed_session [] [])
             ''Hello'' ''Body'' ''draft'' [] [] ManualUpload (Some ''PNG'') ''a.png'' ''image/png''
             example_world)
       = Some (PublishSuccess \<lparr>post_id = JInt 7, post_url = JStr ''https://example.com/?p=7'',
           edit_site = ''https://example.com'',
           message = ''Post published successfully to WordPress (Status: draft)''\<rparr>)"
    using t_fh by (simp add: p_fh s)
  have p_fu: "server_media_without_url
             (sent example_world @ [upload_request example_world example_config ''PNG'' ''a.png'' ''image/png''])
             rq
           = Returned \<lparr>status_code = 201, text = ''{}'',
               decoded = Inr (JObj [(''id'', JInt 7), (''link'', JStr ''https://example.com/?p=7'')])\<rparr>"
    for rq
    by (simp add: server_media_without_url_def reply_def)
  note t_fu = media_upload_outcome_and_post
          [where w = example_world and cfg = example_config and srv = server_media_without_url
             and image_data = "''PNG''" and filename = "''a.png''" and mime_type = "''image/png''"
             and md = plain_markdown and cats = "[]" and tgs = "[]" and cs = "[]" and ts = "[]"
             and title = "''Hello''" and content = "''Body''" and status = "''draft''"
             and opt = ManualUpload
             and r = "\<lparr>status_code = 201, text = ''{}'', decoded = Inr (JObj [(''id'', JInt 12)])\<rparr>",
           OF example_world_config example_config_self_hosted example_world_valid _ _ a_fu,
           THEN conjunct2, THEN mp]
  have c_fu: "proceeding_without_image
       \<in> set (ui (snd (publish_clicked server_media_without_url plain_markdown True (typed_session [] [])
             ''Hello'' ''Body'' ''draft'' [] [] ManualUpload (Some ''PNG'') ''a.png'' ''image/png''
             example_world)))
   \<and> fst (publish_clicked server_media_without_url plain_markdown True (typed_session [] [])
             ''Hello'' ''Body'' ''draft'' [] [] ManualUpload (Some ''PNG'') ''a.png'' ''image/png''
             example_world)
       = Some (PublishSuccess \<lparr>post_id = JInt 7, post_url = JStr ''https://example.com/?p=7'',
           edit_site = ''https://example.com'',
           message = ''Post published successfully to WordPress (Status: draft)''\<rparr>)"
    using t_fu by (simp add: p_fu s)
  have g: "getitem (self_hosted_post_data plain_markdown ''Hello'' ''Body'' ''draft'' (Some []) [] (Some []) [] JNull) ''featured_media'' = None"
    by (simp add: getitem_featured_media)
  from t_ok g c_f5 c_fh c_fu a_ok a_f5 a_fh a_fu show ?thesis
    by (simp add: example_world_config example_config_self_hosted example_world_valid
        example_world_sent)
qed

text \<open>
  C7 as stated fails, at two answers of status 201 to the upload. A record that carries
  the identifier 12 but no \<open>source_url\<close>: reading \<open>media_info['source_url']\<close> raises,
  the upload is reported as failed, and the post request that follows has no
  \<open>featured_media\<close> field. A record with \<open>source_url\<close> and the identifier 0: the
  upload succeeds, and \<open>if featured_image_id:\<close> leaves \<open>featured_media\<close> out of the
  post request.
\<close>

theorem created_upload_counterexample:
  "server_media_without_url (sent example_world)
        (upload_request example_world example_config ''PNG'' ''a.png'' ''image/png'')
       = Returned \<lparr>status_code = 201, text = ''{}'', decoded = Inr (JObj [(''id'', JInt 12)])\<rparr>
   \<and> sent (snd (publish_clicked server_media_without_url plain_markdown True (typed_session [] [])
             ''Hello'' ''Body'' ''draft'' [] [] ManualUpload (Some ''PNG'') ''a.png'' ''image/png''
             example_world))
       = [upload_request example_world example_config ''PNG'' ''a.png'' ''image/png'',
          self_hosted_post example_world example_config
            (self_hosted_post_data plain_markdown ''Hello'' ''Body'' ''draft'' (Some []) [] (Some []) [] JNull)]
   \<and> getitem (self_hosted_post_data plain_markdown ''Hello'' ''Body'' ''draft'' (Some []) [] (Some []) [] JNull) ''featured_media'' = None
   \<and> server_media_zero (sent example_world)
        (upload_request example_world example_config ''PNG'' ''a.png'' ''image/png'')
       = Returned \<lparr>status_code = 201, text = ''{}'',
           decoded = Inr (JObj [(''id'', JInt 0), (''source_url'', JStr ''https://example.com/a.png'')])\<rparr>
   \<and> sent (snd (publish_clicked server_media_zero plain_markdown True (typed_session [] [])
             ''Hello'' ''Body'' ''draft'' [] [] ManualUpload (Some ''PNG'') ''a.png'' ''image/png''
             example_world))
       = [upload_request example_world example_config ''PNG'' ''a.png'' ''image/png'',
          self_hosted_post example_world example_config
            (self_hosted_post_data plain_markdown ''Hello'' ''Body'' ''draft'' (Some []) [] (Some []) [] (JInt 0))]
   \<and> getitem (self_hosted_post_data plain_markdown ''Hello'' ''Body'' ''draft'' (Some []) [] (Some []) [] (JInt 0)) ''featured_media'' = None"
proof -
  have a: "server_media_without_url (sent example_world)
        (upload_request example_world example_config ''PNG'' ''a.png'' ''image/png'')
       = Returned \<lparr>status_code = 201, text = ''{}'', decoded = Inr (JObj [(''id'', JInt 12)])\<rparr>"
    by (simp add: server_media_without_url_def reply_def example_world_sent)
  have z: "server_media_zero (sent example_world)
        (upload_request example_world example_config ''PNG'' ''a.png'' ''image/png'')
       = Returned \<lparr>status_code = 201, text = ''{}'',
           decoded = Inr (JObj [(''id'', JInt 0), (''source_url'', JStr ''https://example.com/a.png'')])\<rparr>"
    by (simp add: server_media_zero_def reply_def example_world_sent)
  have "fst (upload_image_to_wordpress server_media_without_url ''PNG'' ''a.png'' ''image/png''
               example_world)
          = UploadFailure (''Unexpected error during image upload: '' @ sq @ ''source_url'' @ sq)"
    by (simp add: upload_result [OF example_world_config example_config_self_hosted] a
        after_upload_def response_json_def)
  note f = clicked_after_failure
      [OF example_world_config example_config_self_hosted example_world_valid _ _ this,
       where opt = ManualUpload and md = plain_markdown and title = "''Hello''"
         and content = "''Body''" and status = "''draft''" and cs = "[]" and cats = "[]"
         and ts = "[]" and tgs = "[]"]
  have b: "sent (snd (publish_clicked server_media_without_url plain_markdown True (typed_session [] [])
             ''Hello'' ''Body'' ''draft'' [] [] ManualUpload (Some ''PNG'') ''a.png'' ''image/png''
             example_world))
       = [upload_request example_world example_config ''PNG'' ''a.png'' ''image/png'',
          self_hosted_post example_world example_config
            (self_hosted_post_data plain_markdown ''Hello'' ''Body'' ''draft'' (Some []) [] (Some []) [] JNull)]"
    using f by (simp add: example_world_sent)
  have "fst (upload_image_to_wordpress server_media_zero ''PNG'' ''a.png'' ''image/png''
               example_world)
          = UploadSuccess (JInt 0) (JStr ''https://example.com/a.png'')
              (''Image '' @ sq @ ''a.png'' @ sq @ '' uploaded successfully to media library.'')"
    using upload_created [where srv = server_media_zero, OF example_world_config example_config_self_hosted z]
    by simp
  note g = clicked_after_success
      [OF example_world_config example_config_self_hosted example_world_valid _ _ this,
       where opt = ManualUpload and md = plain_markdown and title = "''Hello''"
         and content = "''Body''" and status = "''draft''" and cs = "[]" and cats = "[]"
         and ts = "[]" and tgs = "[]"]
  have d: "sent (snd (publish_clicked server_media_zero plain_markdown True (typed_session [] [])
             ''Hello'' ''Body'' ''draft'' [] [] ManualUpload (Some ''PNG'') ''a.png'' ''image/png''
             example_world))
       = [upload_request example_world example_config ''PNG'' ''a.png'' ''image/png'',
          self_hosted_post example_world example_config
            (self_hosted_post_data plain_markdown ''Hello'' ''Body'' ''draft'' (Some []) [] (Some []) [] (JInt 0))]"
    using g by (simp add: example_world_sent)
  have e: "getitem (self_hosted_post_data plain_markdown ''Hello'' ''Body'' ''draft'' (Some []) [] (Some []) [] JNull) ''featured_media'' = None"
    by (simp add: getitem_featured_media)
  have h: "getitem (self_hosted_post_data plain_markdown ''Hello'' ''Body'' ''draft'' (Some []) [] (Some []) [] (JInt 0)) ''featured_media'' = None"
    by (simp add: getitem_featured_media)
  from a b e z d h show ?thesis by simp
qed

section \<open>Parsing project files\<close>

lemma setitem_not_empty: "setitem k v d \<noteq> []"
  by (cases d) (auto split: if_splits)

lemma strict_files_snoc:
  "strict_files (ms @ [m]) = setitem (strip (fst m)) (strip (snd (snd m))) (strict_files ms)"
  by (simp add: strict_files_def)

lemma strict_files_not_empty: "ms \<noteq> [] \<Longrightarrow> strict_files ms \<noteq> []"
  by (cases ms rule: rev_cases) (simp_all add: strict_files_snoc setitem_not_empty)

lemma strict_files_empty: "strict_files [] = []"
  by (simp add: strict_files_def)

lemma getitem_strict_files:
  "getitem (strict_files ms) k =
     map_of (rev (map (\<lambda>m. (strip (fst m), strip (snd (snd m)))) ms)) k"
  by (induction ms rule: rev_induct)
     (simp_all add: strict_files_empty strict_files_snoc getitem_setitem, simp add: getitem_def)

text \<open>
  C10. For every input string \<open>parse_project_files\<close> returns a mapping that is not empty.
  When the strict pattern matches, the mapping returned is the one built from its
  matches, each file name and each content stripped of surrounding whitespace (a later
  block of the same name replacing an earlier one), and nothing is displayed. When the
  strict pattern finds nothing and the lenient split extracts no file, the mapping is
  exactly the three placeholder files \<open>README.md\<close>, \<open>main.py\<close> and
  \<open>requirements.txt\<close>.
\<close>

theorem parse_project_files_total_and_non_empty:
  "fst (parse_project_files content) \<noteq> []
   \<and> (findall_strict content \<noteq> [] \<longrightarrow>
        parse_project_files content = (strict_files (findall_strict content), [])
        \<and> (\<forall>k. getitem (fst (parse_project_files content)) k
               = map_of (rev (map (\<lambda>m. (strip (fst m), strip (snd (snd m))))
                                (findall_strict content))) k))
   \<and> (findall_strict content = [] \<and> lenient_files content = [] \<longrightarrow>
        fst (parse_project_files content) = placeholder_files)
   \<and> map fst placeholder_files = [''README.md'', ''main.py'', ''requirements.txt'']"
proof (intro conjI impI allI)
  show "fst (parse_project_files content) \<noteq> []"
    by (simp add: parse_project_files_def Let_def placeholder_files_def)
  show "map fst placeholder_files = [''README.md'', ''main.py'', ''requirements.txt'']"
    by (simp add: placeholder_files_def)
  show "fst (parse_project_files content) = placeholder_files"
    if "findall_strict content = [] \<and> lenient_files content = []"
    using that by (simp add: parse_project_files_def strict_files_empty)
  show p: "parse_project_files content = (strict_files (findall_strict content), [])"
    if "findall_strict content \<noteq> []"
    using strict_files_not_empty [OF that] by (simp add: parse_project_files_def)
  show "getitem (fst (parse_project_files content)) k
               = map_of (rev (map (\<lambda>m. (strip (fst m), strip (snd (snd m))))
                                (findall_strict content))) k"
    if "findall_strict content \<noteq> []" for k
    by (simp add: p [OF that] getitem_strict_files)
qed

lemma one_file_found: "findall_strict one_file_reply \<noteq> []"
  by code_simp

lemma one_file_strict:
  "strict_files (findall_strict one_file_reply) = [(''main.py'', ''print(1)'')]"
  by code_simp

lemma hello_nothing: "findall_strict ''hello'' = []" "lenient_files ''hello'' = []"
  by code_simp+

theorem parse_project_files_total_and_non_empty_witness:
  "findall_strict one_file_reply \<noteq> []
   \<and> parse_project_files one_file_reply = ([(''main.py'', ''print(1)'')], [])
   \<and> findall_strict ''hello'' = [] \<and> lenient_files ''hello'' = []
   \<and> fst (parse_project_files ''hello'') = placeholder_files"
  using parse_project_files_total_and_non_empty [of one_file_reply]
    parse_project_files_total_and_non_empty [of "''hello''"]
  by (simp add: one_file_found one_file_strict hello_nothing)

section \<open>What keeps the configuration\<close>

text \<open>
  Fetching terms, uploading and publishing leave \<open>wordpress_config\<close> as it is: only
  \<open>setup_wordpress\<close> and \<open>test_wordpress_connection\<close> assign to it, so the permalink
  mode that a connection test detected governs the requests that follow.
\<close>

lemma get_api_url_config:
  "wordpress_config w' = wordpress_config w \<Longrightarrow> get_api_url w' endpoint = get_api_url w endpoint"
  by (simp add: get_api_url_def)

lemma terms_failure_config:
  "wordpress_config (snd (terms_failure term_type e ts w)) = wordpress_config w"
  by (cases e) (simp_all add: terms_failure_def say_def)

lemma after_terms_get_config:
  "wordpress_config (snd (after_terms_get term_type u (out, w))) = wordpress_config w"
  by (simp add: after_terms_get_def terms_failure_config say_def
      split: outcome.splits sum.splits prod.splits option.splits)

lemma get_terms_robust_config:
  "wordpress_config (snd (get_terms_robust srv term_type w)) = wordpress_config w"
proof (cases "wordpress_config w")
  case None
  then show ?thesis by (simp add: get_terms_robust_def)
next
  case (Some cfg)
  show ?thesis
  proof (cases "is_wpcom cfg")
    case True
    with Some show ?thesis by (simp add: get_terms_robust_def say_def)
  next
    case False
    have "wordpress_config (snd (case x of (ts, w') \<Rightarrow> (Inr ts :: exn + wp_term list, w'))) =
          wordpress_config (snd x)" for x :: "wp_term list \<times> world"
      by (cases x) simp
    with Some False show ?thesis
      by (simp add: get_terms_robust_def dict_copy_def alloc_def dict_assign_def get_api_url_def
          http_def Let_def after_terms_get_config)
  qed
qed

lemma upload_config:
  "wordpress_config (snd (upload_image_to_wordpress srv image_data filename mime_type w))
     = wordpress_config w"
proof (cases "wordpress_config w")
  case None
  then show ?thesis by (simp add: upload_image_to_wordpress_def)
next
  case (Some cfg)
  show ?thesis
  proof (cases "is_wpcom cfg")
    case True
    with Some show ?thesis by (simp add: upload_image_to_wordpress_def say_def)
  next
    case False
    with Some show ?thesis by (simp add: upload_world)
  qed
qed

lemma resolve_terms_config:
  "wordpress_config (snd (resolve_terms key unset all_existing names post_data w))
     = wordpress_config w"
  by (simp add: resolve_terms_def say_def split: option.splits list.splits sum.splits)

lemma handled_world:
  "snd (case x of (Inl e, w') \<Rightarrow> (publish_handlers e, w') | (Inr r, w') \<Rightarrow> (r, w')) = snd x"
  for x :: "(exn + publish_result) \<times> world"
  by (simp split: prod.splits sum.splits)

lemma publish_self_hosted_config:
  "wordpress_config (snd (publish_self_hosted srv ss cfg status categories tags post_data w))
     = wordpress_config w"
proof -
  obtain r1 w1 where 1: "resolve_terms ''categories'' ''Post will be uncategorized or default.''
             (wp_all_categories ss) categories post_data w = (r1, w1)"
    by (cases "resolve_terms ''categories'' ''Post will be uncategorized or default.''
             (wp_all_categories ss) categories post_data w")
  have c1: "wordpress_config w1 = wordpress_config w"
    using resolve_terms_config [of "''categories''" "''Post will be uncategorized or default.''"
        "wp_all_categories ss" categories post_data w]
    by (simp add: 1)
  show ?thesis
  proof (cases r1)
    case (Inl e)
    with 1 c1 show ?thesis by (simp add: publish_self_hosted_def)
  next
    case (Inr pd1)
    obtain r2 w2 where 2: "resolve_terms ''tags'' ''Post will be published without specified tags.''
                  (wp_all_tags ss) tags pd1 w1 = (r2, w2)"
      by (cases "resolve_terms ''tags'' ''Post will be published without specified tags.''
                  (wp_all_tags ss) tags pd1 w1")
    have c2: "wordpress_config w2 = wordpress_config w"
      using resolve_terms_config [of "''tags''" "''Post will be published without specified tags.''"
          "wp_all_tags ss" tags pd1 w1] c1
      by (simp add: 2)
    show ?thesis
    proof (cases r2)
      case (Inl e)
      with 1 2 Inr c2 show ?thesis by (simp add: publish_self_hosted_def)
    next
      case pd: (Inr pd2)
      show ?thesis
      proof (cases "get_api_url w2 ''/wp/v2/posts''")
        case (Inl e)
        with 1 2 Inr pd c2 show ?thesis by (simp add: publish_self_hosted_def)
      next
        case u: (Inr api_url)
        with 1 2 Inr pd c2 show ?thesis
          by (simp add: publish_self_hosted_def http_def after_post_world)
      qed
    qed
  qed
qed

lemma publish_wpcom_config:
  "wordpress_config (snd (publish_wpcom srv cfg status categories tags post_data w))
     = wordpress_config w"
proof -
  define w1 where "w1 = (case categories of
                  Some (c # cs) \<Rightarrow> say categories_unsupported w
                | _ \<Rightarrow> w)"
  have c: "wordpress_config w1 = wordpress_config w"
    by (simp add: w1_def say_def split: option.splits list.splits)
  show ?thesis
  proof (cases "get_api_url w1 ''/posts/new''")
    case (Inl e)
    with c show ?thesis by (simp add: publish_wpcom_def w1_def [symmetric] Let_def)
  next
    case (Inr u)
    with c show ?thesis
      by (simp add: publish_wpcom_def w1_def [symmetric] http_def after_post_world Let_def)
  qed
qed

lemma publish_config:
  "wordpress_config (snd (publish_to_wordpress srv md ss title content status categories tags fid w))
     = wordpress_config w"
  by (cases "wordpress_config w")
     (simp_all add: publish_to_wordpress_def Let_def handled_world publish_wpcom_config
        publish_self_hosted_config)

section \<open>The permalink mode after a connection test\<close>

lemma first_probe_pretty:
  "use_query_params cfg \<noteq> Some True \<Longrightarrow> first_probe w cfg = pretty_probe w cfg"
  by (simp add: first_probe_def pretty_probe_def)

lemma run_operation_config:
  "wordpress_config (run_operation srv md w op) = wordpress_config w"
  by (cases op) (simp_all add: get_terms_robust_config upload_config publish_config)

lemma run_operations_config:
  "wordpress_config (run_operations srv md ops w) = wordpress_config w"
  unfolding run_operations_def
  by (induction ops arbitrary: w) (simp_all add: run_operation_config)

lemma get_api_url_pretty:
  assumes "wordpress_config w = Some cfg" "\<not> is_wpcom cfg" "use_query_params cfg \<noteq> Some True"
  shows "get_api_url w endpoint = Inr (site_url cfg @ ''/wp-json'' @ endpoint)"
  using assms by (simp add: get_api_url_def)

lemma test_first_200:
  assumes "wordpress_config w = Some cfg" "\<not> is_wpcom cfg"
    and "srv (sent w) (first_probe w cfg) = Returned r1" "status_code r1 = 200"
  shows "sent (snd (test_wordpress_connection srv w)) = sent w @ [first_probe w cfg]"
    and "decoded r1 = Inr v1 \<Longrightarrow>
         wordpress_config (snd (test_wordpress_connection srv w))
           = Some (cfg\<lparr>use_query_params := Some False\<rparr>)"
    and "decoded r1 = Inl m1 \<Longrightarrow>
         wordpress_config (snd (test_wordpress_connection srv w)) = Some cfg"
  using assms
  by (simp_all add: test_wordpress_connection_def test_self_hosted_first after_first_def
      set_use_query_params_def response_json_def Let_def split: sum.splits)

lemma test_fallback_200:
  assumes "wordpress_config w = Some cfg" "\<not> is_wpcom cfg"
    and "srv (sent w) (first_probe w cfg) = Returned r1" "status_code r1 = 404"
    and "srv (sent w @ [first_probe w cfg]) (fallback_probe w cfg) = Returned r2"
    and "status_code r2 = 200"
  shows "sent (snd (test_wordpress_connection srv w))
           = sent w @ [first_probe w cfg, fallback_probe w cfg]"
    and "decoded r2 = Inr v2 \<Longrightarrow>
         wordpress_config (snd (test_wordpress_connection srv w))
           = Some (cfg\<lparr>use_query_params := Some True\<rparr>)"
    and "decoded r2 = Inl m2 \<Longrightarrow>
         wordpress_config (snd (test_wordpress_connection srv w)) = Some cfg"
  using assms
  by (simp_all add: test_wordpress_connection_def test_self_hosted_first
      after_first_404 [where w = w and cfg = cfg] after_fallback_def
      set_use_query_params_def response_json_def Let_def split: sum.splits)

text \<open>
  C1, as amended. For a self-hosted connection in which the query-parameter form has not
  been detected (as after \<open>setup_wordpress\<close>), so that the first probe is the pretty
  form \<open>/wp-json/wp/v2/users/me\<close>: when the first probe is answered with status 200 it is
  the only request issued, and \<open>use_query_params\<close> becomes \<open>False\<close> if the body
  decodes as JSON and the configuration is left as it was if the body does not decode;
  when the first probe is answered with 404 and the query-parameter fallback with status
  200, \<open>use_query_params\<close> becomes \<open>True\<close> if the body decodes as JSON and the
  configuration is left as it was if the body does not decode. Once the mode is set,
  \<open>_get_api_url\<close> returns the matching form for every endpoint after any sequence of
  term fetches, uploads and publications: \<open>{site_url}/?rest_route={endpoint}\<close> after a
  test that set \<open>True\<close>, \<open>{site_url}/wp-json{endpoint}\<close> after one that set \<open>False\<close>.
\<close>

theorem permalink_mode_follows_decodable_probes:
  assumes "wordpress_config w = Some cfg" and "\<not> is_wpcom cfg"
    and "use_query_params cfg \<noteq> Some True"
    and "srv (sent w) (pretty_probe w cfg) = Returned r1"
  shows "(status_code r1 = 200 \<longrightarrow>
            sent (snd (test_wordpress_connection srv w)) = sent w @ [pretty_probe w cfg])
       \<and> (status_code r1 = 200 \<and> decoded r1 = Inr v1 \<longrightarrow>
            wordpress_config (snd (test_wordpress_connection srv w))
              = Some (cfg\<lparr>use_query_params := Some False\<rparr>)
            \<and> (\<forall>srv' md ops endpoint.
                  get_api_url (run_operations srv' md ops (snd (test_wordpress_connection srv w)))
                    endpoint
                  = Inr (site_url cfg @ ''/wp-json'' @ endpoint)))
       \<and> (status_code r1 = 200 \<and> decoded r1 = Inl m1 \<longrightarrow>
            wordpress_config (snd (test_wordpress_connection srv w)) = Some cfg)
       \<and> (status_code r1 = 404
            \<and> srv (sent w @ [pretty_probe w cfg]) (fallback_probe w cfg) = Returned r2
            \<and> status_code r2 = 200 \<and> decoded r2 = Inr v2 \<longrightarrow>
            sent (snd (test_wordpress_connection srv w))
              = sent w @ [pretty_probe w cfg, fallback_probe w cfg]
            \<and> wordpress_config (snd (test_wordpress_connection srv w))
              = Some (cfg\<lparr>use_query_params := Some True\<rparr>)
            \<and> (\<forall>srv' md ops endpoint.
                  get_api_url (run_operations srv' md ops (snd (test_wordpress_connection srv w)))
                    endpoint
                  = Inr (site_url cfg @ ''/?rest_route='' @ endpoint)))
       \<and> (status_code r1 = 404
            \<and> srv (sent w @ [pretty_probe w cfg]) (fallback_probe w cfg) = Returned r2
            \<and> status_code r2 = 200 \<and> decoded r2 = Inl m2 \<longrightarrow>
            wordpress_config (snd (test_wordpress_connection srv w)) = Some cfg)"
proof -
  note p = first_probe_pretty [OF assms(3), of w, symmetric]
  have r1: "srv (sent w) (first_probe w cfg) = Returned r1"
    using assms(4) by (simp add: p)
  have 1: "sent (snd (test_wordpress_connection srv w)) = sent w @ [pretty_probe w cfg]"
    if "status_code r1 = 200"
    using test_first_200(1) [where srv = srv, OF assms(1,2) r1 that] by (simp add: p)
  have 2: "wordpress_config (snd (test_wordpress_connection srv w))
              = Some (cfg\<lparr>use_query_params := Some False\<rparr>)
            \<and> (\<forall>srv' md ops endpoint.
                  get_api_url (run_operations srv' md ops (snd (test_wordpress_connection srv w)))
                    endpoint
                  = Inr (site_url cfg @ ''/wp-json'' @ endpoint))"
    if "status_code r1 = 200 \<and> decoded r1 = Inr v1"
  proof -
    have c: "wordpress_config (snd (test_wordpress_connection srv w))
              = Some (cfg\<lparr>use_query_params := Some False\<rparr>)"
      using that test_first_200(2) [where srv = srv, OF assms(1,2) r1] by simp
    have "get_api_url (run_operations srv' md ops (snd (test_wordpress_connection srv w))) endpoint
            = Inr (site_url cfg @ ''/wp-json'' @ endpoint)" for srv' md ops endpoint
      using assms(2)
      by (simp add: get_api_url_pretty [where cfg = "cfg\<lparr>use_query_params := Some False\<rparr>"]
          run_operations_config c)
    with c show ?thesis by simp
  qed
  have 3: "wordpress_config (snd (test_wordpress_connection srv w)) = Some cfg"
    if "status_code r1 = 200 \<and> decoded r1 = Inl m1"
    using that test_first_200(3) [where srv = srv, OF assms(1,2) r1] by simp
  have 4: "sent (snd (test_wordpress_connection srv w))
              = sent w @ [pretty_probe w cfg, fallback_probe w cfg]
            \<and> wordpress_config (snd (test_wordpress_connection srv w))
              = Some (cfg\<lparr>use_query_params := Some True\<rparr>)
            \<and> (\<forall>srv' md ops endpoint.
                  get_api_url (run_operations srv' md ops (snd (test_wordpress_connection srv w)))
                    endpoint
                  = Inr (site_url cfg @ ''/?rest_route='' @ endpoint))"
    if h: "status_code r1 = 404
            \<and> srv (sent w @ [pretty_probe w cfg]) (fallback_probe w cfg) = Returned r2
            \<and> status_code r2 = 200 \<and> decoded r2 = Inr v2"
  proof -
    from h have r2: "srv (sent w @ [first_probe w cfg]) (fallback_probe w cfg) = Returned r2"
      by (simp add: p)
    from h have s1: "status_code r1 = 404" and s2: "status_code r2 = 200"
      and d2: "decoded r2 = Inr v2"
      by simp_all
    have s: "sent (snd (test_wordpress_connection srv w))
              = sent w @ [pretty_probe w cfg, fallback_probe w cfg]"
      using test_fallback_200(1) [where srv = srv, OF assms(1,2) r1 s1 r2 s2] by (simp add: p)
    have c: "wordpress_config (snd (test_wordpress_connection srv w))
              = Some (cfg\<lparr>use_query_params := Some True\<rparr>)"
      using test_fallback_200(2) [where srv = srv, OF assms(1,2) r1 s1 r2 s2 d2] .
    have "get_api_url (run_operations srv' md ops (snd (test_wordpress_connection srv w))) endpoint
            = Inr (site_url cfg @ ''/?rest_route='' @ endpoint)" for srv' md ops endpoint
      using assms(2)
      by (simp add: get_api_url_query [where cfg = "cfg\<lparr>use_query_params := Some True\<rparr>"]
          run_operations_config c)
    with s c show ?thesis by simp
  qed
  have 5: "wordpress_config (snd (test_wordpress_connection srv w)) = Some cfg"
    if h: "status_code r1 = 404
            \<and> srv (sent w @ [pretty_probe w cfg]) (fallback_probe w cfg) = Returned r2
            \<and> status_code r2 = 200 \<and> decoded r2 = Inl m2"
  proof -
    from h have r2: "srv (sent w @ [first_probe w cfg]) (fallback_probe w cfg) = Returned r2"
      by (simp add: p)
    from h have s1: "status_code r1 = 404" and s2: "status_code r2 = 200"
      and d2: "decoded r2 = Inl m2"
      by simp_all
    show ?thesis
      using test_fallback_200(3) [where srv = srv, OF assms(1,2) r1 s1 r2 s2 d2] .
  qed
  from 1 2 3 4 5 show ?thesis by blast
qed


lemma example_config_not_query: "use_query_params example_config \<noteq> Some True"
  by (simp add: example_config_def)

theorem permalink_mode_follows_decodable_probes_witness:
  "wordpress_config example_world = Some example_config
   \<and> \<not> is_wpcom example_config \<and> use_query_params example_config \<noteq> Some True
   \<and> (server_200_json (sent example_world) (pretty_probe example_world example_config)
         = Returned \<lparr>status_code = 200, text = ''{}'',
             decoded = Inr (JObj [(''name'', JStr ''admin'')])\<rparr>
       \<and> sent (snd (test_wordpress_connection server_200_json example_world))
         = [pretty_probe example_world example_config]
       \<and> wordpress_config (snd (test_wordpress_connection server_200_json example_world))
         = Some (example_config\<lparr>use_query_params := Some False\<rparr>))
   \<and> (server_200_html (sent example_world) (pretty_probe example_world example_config)
         = Returned \<lparr>status_code = 200, text = ''<html></html>'', decoded = Inl ''Expecting value''\<rparr>
       \<and> wordpress_config (snd (test_wordpress_connection server_200_html example_world))
         = Some example_config)
   \<and> (server_404_then_json (sent example_world) (pretty_probe example_world example_config)
         = Returned \<lparr>status_code = 404, text = ''Not Found'', decoded = Inl ''Expecting value''\<rparr>
       \<and> server_404_then_json (sent example_world @ [pretty_probe example_world example_config])
            (fallback_probe example_world example_config)
         = Returned \<lparr>status_code = 200, text = ''{}'',
             decoded = Inr (JObj [(''name'', JStr ''admin'')])\<rparr>
       \<and> wordpress_config (snd (test_wordpress_connection server_404_then_json example_world))
         = Some (example_config\<lparr>use_query_params := Some True\<rparr>)
       \<and> get_api_url
            (run_operations server_created plain_markdown
               [FetchTerms ''categories'', UploadImage ''PNG'' ''a.png'' ''image/png'']
               (snd (test_wordpress_connection server_404_then_json example_world)))
            ''/wp/v2/posts''
         = Inr ''https://example.com/?rest_route=/wp/v2/posts'')
   \<and> (server_404_then_html (sent example_world) (pretty_probe example_world example_config)
         = Returned \<lparr>status_code = 404, text = ''Not Found'', decoded = Inl ''Expecting value''\<rparr>
       \<and> server_404_then_html (sent example_world @ [pretty_probe example_world example_config])
            (fallback_probe example_world example_config)
         = Returned \<lparr>status_code = 200, text = ''<html></html>'', decoded = Inl ''Expecting value''\<rparr>
       \<and> wordpress_config (snd (test_wordpress_connection server_404_then_html example_world))
         = Some example_config)"
proof -
  have a1: "server_200_json (sent example_world) (pretty_probe example_world example_config)
         = Returned \<lparr>status_code = 200, text = ''{}'',
             decoded = Inr (JObj [(''name'', JStr ''admin'')])\<rparr>"
    by (simp add: server_200_json_def reply_def)
  have a2: "server_200_html (sent example_world) (pretty_probe example_world example_config)
         = Returned \<lparr>status_code = 200, text = ''<html></html>'', decoded = Inl ''Expecting value''\<rparr>"
    by (simp add: server_200_html_def reply_def)
  have a3: "server_404_then_json (sent example_world) (pretty_probe example_world example_config)
         = Returned \<lparr>status_code = 404, text = ''Not Found'', decoded = Inl ''Expecting value''\<rparr>"
    by (simp add: server_404_then_json_def reply_def example_world_sent)
  have b3: "server_404_then_json (sent example_world @ [pretty_probe example_world example_config])
            (fallback_probe example_world example_config)
         = Returned \<lparr>status_code = 200, text = ''{}'',
             decoded = Inr (JObj [(''name'', JStr ''admin'')])\<rparr>"
    by (simp add: server_404_then_json_def reply_def)
  have a4: "server_404_then_html (sent example_world) (pretty_probe example_world example_config)
         = Returned \<lparr>status_code = 404, text = ''Not Found'', decoded = Inl ''Expecting value''\<rparr>"
    by (simp add: server_404_then_html_def reply_def example_world_sent)
  have b4: "server_404_then_html (sent example_world @ [pretty_probe example_world example_config])
            (fallback_probe example_world example_config)
         = Returned \<lparr>status_code = 200, text = ''<html></html>'', decoded = Inl ''Expecting value''\<rparr>"
    by (simp add: server_404_then_html_def reply_def)
  have s: "site_url example_config = ''https://example.com''"
    by (simp add: example_config_def)
  note t1 = permalink_mode_follows_decodable_probes
      [where w = example_world and cfg = example_config and srv = server_200_json
         and ?r1.0 = "\<lparr>status_code = 200, text = ''{}'',
             decoded = Inr (JObj [(''name'', JStr ''admin'')])\<rparr>"
         and ?v1.0 = "JObj [(''name'', JStr ''admin'')]",
       OF example_world_config example_config_self_hosted example_config_not_query a1]
  note t2 = permalink_mode_follows_decodable_probes
      [where w = example_world and cfg = example_config and srv = server_200_html
         and ?r1.0 = "\<lparr>status_code = 200, text = ''<html></html>'', decoded = Inl ''Expecting value''\<rparr>"
         and ?m1.0 = "''Expecting value''",
       OF example_world_config example_config_self_hosted example_config_not_query a2]
  note t3 = permalink_mode_follows_decodable_probes
      [where w = example_world and cfg = example_config and srv = server_404_then_json
         and ?r1.0 = "\<lparr>status_code = 404, text = ''Not Found'', decoded = Inl ''Expecting value''\<rparr>"
         and ?r2.0 = "\<lparr>status_code = 200, text = ''{}'',
             decoded = Inr (JObj [(''name'', JStr ''admin'')])\<rparr>"
         and ?v2.0 = "JObj [(''name'', JStr ''admin'')]",
       OF example_world_config example_config_self_hosted example_config_not_query a3]
  note t4 = permalink_mode_follows_decodable_probes
      [where w = example_world and cfg = example_config and srv = server_404_then_html
         and ?r1.0 = "\<lparr>status_code = 404, text = ''Not Found'', decoded = Inl ''Expecting value''\<rparr>"
         and ?r2.0 = "\<lparr>status_code = 200, text = ''<html></html>'', decoded = Inl ''Expecting value''\<rparr>"
         and ?m2.0 = "''Expecting value''",
       OF example_world_config example_config_self_hosted example_config_not_query a4]
  have c1: "sent (snd (test_wordpress_connection server_200_json example_world))
         = [pretty_probe example_world example_config]
       \<and> wordpress_config (snd (test_wordpress_connection server_200_json example_world))
         = Some (example_config\<lparr>use_query_params := Some False\<rparr>)"
    using t1 by (simp add: example_world_sent)
  have c2: "wordpress_config (snd (test_wordpress_connection server_200_html example_world))
         = Some example_config"
    using t2 by simp
  have c3: "wordpress_config (snd (test_wordpress_connection server_404_then_json example_world))
         = Some (example_config\<lparr>use_query_params := Some True\<rparr>)
       \<and> get_api_url
            (run_operations server_created plain_markdown
               [FetchTerms ''categories'', UploadImage ''PNG'' ''a.png'' ''image/png'']
               (snd (test_wordpress_connection server_404_then_json example_world)))
            ''/wp/v2/posts''
         = Inr ''https://example.com/?rest_route=/wp/v2/posts''"
    using t3 b3 by (simp add: s)
  have c4: "wordpress_config (snd (test_wordpress_connection server_404_then_html example_world))
         = Some example_config"
    using t4 b4 by simp
  from a1 a2 a3 b3 a4 b4 c1 c2 c3 c4 show ?thesis
    by (simp add: example_world_config example_config_self_hosted example_config_not_query)
qed

end
